theory Spec2Isabelle
  imports Main
begin

section \<open>Data model\<close>

text \<open>
  The webhook works on KubeVirt \<^verbatim>\<open>VirtualMachine\<close> objects. Their Go types come from
  \<^verbatim>\<open>kubevirt.io/api/core/v1\<close> and \<^verbatim>\<open>k8s.io/apimachinery\<close>. Every field the
  webhook reads, compares or assigns is a field of the records below, under the path the
  code uses; sub-structures that the code only ever compares as a whole are values of the
  type parameter \<open>'x\<close>.

  Conventions:
  \<^item> a Go pointer field is an \<open>option\<close> (\<open>None\<close> is \<^verbatim>\<open>nil\<close>);
  \<^item> a Go slice is a list and a Go map is a HOL map; \<^verbatim>\<open>equality.Semantic.DeepEqual\<close>
    does not tell a nil slice or map from an empty one, so \<^verbatim>\<open>nil\<close> is \<open>[]\<close>
    respectively \<open>Map.empty\<close>, and \<^verbatim>\<open>DeepEqual\<close> is HOL equality;
  \<^item> \<^verbatim>\<open>metav1.Time\<close> is an instant, an \<open>int\<close> offset from the zero time
    (\<^verbatim>\<open>metav1.Time{}\<close> is \<open>0\<close>); \<^verbatim>\<open>int64\<close> fields are only assigned and
    compared, never computed with, and are \<open>int\<close>.
\<close>

record DataVolumeSource =
  dv_Name :: string
  dv_Hotpluggable :: bool

record 'x PersistentVolumeClaimVolumeSource =
  pvc_Source :: 'x
  pvc_Hotpluggable :: bool

record 'x Volume =
  vol_Name :: string
  vol_DataVolume :: "DataVolumeSource option"
  vol_PersistentVolumeClaim :: "'x PersistentVolumeClaimVolumeSource option"
  vol_OtherSources :: 'x

record 'x Disk =
  disk_Name :: string
  disk_CDRom :: "'x option"
  disk_Other :: 'x

record 'x Devices =
  dev_Disks :: "'x Disk list"
  dev_Filesystems :: "'x list"
  dev_Interfaces :: "'x list"
  dev_GPUs :: "'x list"
  dev_HostDevices :: "'x list"
  dev_Watchdog :: "'x option"
  dev_TPM :: "'x option"
  dev_Inputs :: "'x list"
  dev_Other :: 'x

record 'x ResourceRequirements =
  res_Requests :: "string \<rightharpoonup> 'x"
  res_Limits :: "string \<rightharpoonup> 'x"
  res_OvercommitGuestOverhead :: bool

record 'x DomainSpec =
  dom_CPU :: "'x option"
  dom_Resources :: "'x ResourceRequirements"
  dom_Devices :: "'x Devices"
  dom_Other :: 'x

record 'x VirtualMachineInstanceSpec =
  vmi_Volumes :: "'x Volume list"
  vmi_Networks :: "'x list"
  vmi_Domain :: "'x DomainSpec"
  vmi_Other :: 'x

record 'x VirtualMachineInstanceTemplateSpec =
  tmpl_ObjectMeta :: 'x
  tmpl_Spec :: "'x VirtualMachineInstanceSpec"

record 'x VirtualMachineSpec =
  spec_Running :: "bool option"
  spec_RunStrategy :: "string option"
  spec_Template :: "'x VirtualMachineInstanceTemplateSpec option"
  spec_Other :: 'x

record 'x ObjectMeta =
  meta_Name :: string
  meta_Namespace :: string
  meta_ResourceVersion :: string
  meta_Generation :: int
  meta_ManagedFields :: "'x list"
  meta_SelfLink :: string
  meta_UID :: string
  meta_CreationTimestamp :: int
  meta_DeletionTimestamp :: "int option"
  meta_DeletionGracePeriodSeconds :: "int option"
  meta_Labels :: "string \<rightharpoonup> string"
  meta_Annotations :: "string \<rightharpoonup> string"
  meta_Other :: 'x

record 'x VirtualMachine =
  vm_TypeMeta :: 'x
  vm_ObjectMeta :: "'x ObjectMeta"
  vm_Spec :: "'x VirtualMachineSpec"
  vm_Status :: 'x

text \<open>
  A Go method that dereferences a nil pointer panics. A function that can do so returns
  \<open>panic + 'a\<close>, with \<open>Inl\<close> for the panic.
\<close>

datatype panic = NilPointerDereference

text \<open>
  Assignments through the path \<^verbatim>\<open>vm.Spec.Template.Spec\<close> and, below it,
  \<^verbatim>\<open>.Domain.Devices\<close> and \<^verbatim>\<open>.Domain\<close>. They are only used where the code has
  checked that \<^verbatim>\<open>Template\<close> is not nil.
\<close>

definition onTemplateSpec ::
  "('x VirtualMachineInstanceSpec \<Rightarrow> 'x VirtualMachineInstanceSpec) \<Rightarrow>
   'x VirtualMachine \<Rightarrow> 'x VirtualMachine" where
  "onTemplateSpec f vm =
     vm\<lparr>vm_Spec := (vm_Spec vm)\<lparr>spec_Template :=
       map_option (\<lambda>t. t\<lparr>tmpl_Spec := f (tmpl_Spec t)\<rparr>) (spec_Template (vm_Spec vm))\<rparr>\<rparr>"

definition onDomain ::
  "('x DomainSpec \<Rightarrow> 'x DomainSpec) \<Rightarrow>
   'x VirtualMachineInstanceSpec \<Rightarrow> 'x VirtualMachineInstanceSpec" where
  "onDomain f s = s\<lparr>vmi_Domain := f (vmi_Domain s)\<rparr>"

definition onDevices ::
  "('x Devices \<Rightarrow> 'x Devices) \<Rightarrow>
   'x VirtualMachineInstanceSpec \<Rightarrow> 'x VirtualMachineInstanceSpec" where
  "onDevices f s = onDomain (\<lambda>d. d\<lparr>dom_Devices := f (dom_Devices d)\<rparr>) s"

definition templateIsNil :: "'x VirtualMachine \<Rightarrow> bool" where
  "templateIsNil vm = (spec_Template (vm_Spec vm) = None)"

section \<open>Field permission checkers (field_permission_checkers.go)\<close>

text \<open>
  The interface \<^verbatim>\<open>FieldPermissionChecker\<close> has six implementations, all of them empty
  structs: a checker value is one of six tags, and each interface method dispatches on it.
\<close>

datatype checker =
  StoragePermissionChecker
  | CdromUserPermissionChecker
  | NetworkPermissionChecker
  | ComputePermissionChecker
  | DevicesPermissionChecker
  | LifecyclePermissionChecker

fun Name :: "checker \<Rightarrow> string" where
  "Name StoragePermissionChecker = ''storage''"
| "Name CdromUserPermissionChecker = ''cdrom''"
| "Name NetworkPermissionChecker = ''network''"
| "Name ComputePermissionChecker = ''compute''"
| "Name DevicesPermissionChecker = ''devices''"
| "Name LifecyclePermissionChecker = ''lifecycle''"

fun Subresource :: "checker \<Rightarrow> string" where
  "Subresource StoragePermissionChecker = ''virtualmachines/storage-admin''"
| "Subresource CdromUserPermissionChecker = ''virtualmachines/cdrom-user''"
| "Subresource NetworkPermissionChecker = ''virtualmachines/network-admin''"
| "Subresource ComputePermissionChecker = ''virtualmachines/compute-admin''"
| "Subresource DevicesPermissionChecker = ''virtualmachines/devices-admin''"
| "Subresource LifecyclePermissionChecker = ''virtualmachines/lifecycle-admin''"

subsection \<open>StoragePermissionChecker\<close>

text \<open>
  \<^verbatim>\<open>HasChanged\<close> reads \<^verbatim>\<open>oldVM.Spec.Template.Spec.Volumes\<close> and then
  \<^verbatim>\<open>newVM.Spec.Template.Spec.Volumes\<close> with no nil check on \<^verbatim>\<open>Template\<close>: either
  dereference panics when the pointer is nil.
\<close>

definition Storage_HasChanged :: "'x VirtualMachine \<Rightarrow> 'x VirtualMachine \<Rightarrow> panic + bool" where
  "Storage_HasChanged oldVM newVM =
     (case spec_Template (vm_Spec oldVM) of
        None \<Rightarrow> Inl NilPointerDereference
      | Some oldT \<Rightarrow>
        (case spec_Template (vm_Spec newVM) of
           None \<Rightarrow> Inl NilPointerDereference
         | Some newT \<Rightarrow>
           (let volumesChanged = (vmi_Volumes (tmpl_Spec oldT) \<noteq> vmi_Volumes (tmpl_Spec newT));
                disksChanged =
                  (dev_Disks (dom_Devices (vmi_Domain (tmpl_Spec oldT))) \<noteq>
                   dev_Disks (dom_Devices (vmi_Domain (tmpl_Spec newT))));
                filesystemsChanged =
                  (dev_Filesystems (dom_Devices (vmi_Domain (tmpl_Spec oldT))) \<noteq>
                   dev_Filesystems (dom_Devices (vmi_Domain (tmpl_Spec newT))))
            in Inr (volumesChanged \<or> disksChanged \<or> filesystemsChanged))))"

definition Storage_Neutralize ::
  "'x VirtualMachine \<Rightarrow> 'x VirtualMachine \<Rightarrow> 'x VirtualMachine \<times> 'x VirtualMachine" where
  "Storage_Neutralize oldVM newVM =
     (if templateIsNil oldVM \<or> templateIsNil newVM then (oldVM, newVM)
      else
        (let oldVM = onTemplateSpec (\<lambda>s. s\<lparr>vmi_Volumes := []\<rparr>) oldVM;
             newVM = onTemplateSpec (\<lambda>s. s\<lparr>vmi_Volumes := []\<rparr>) newVM;
             oldVM = onTemplateSpec (onDevices (\<lambda>d. d\<lparr>dev_Disks := []\<rparr>)) oldVM;
             newVM = onTemplateSpec (onDevices (\<lambda>d. d\<lparr>dev_Disks := []\<rparr>)) newVM;
             oldVM = onTemplateSpec (onDevices (\<lambda>d. d\<lparr>dev_Filesystems := []\<rparr>)) oldVM;
             newVM = onTemplateSpec (onDevices (\<lambda>d. d\<lparr>dev_Filesystems := []\<rparr>)) newVM
         in (oldVM, newVM)))"

subsection \<open>CdromUserPermissionChecker\<close>

text \<open>The helper methods. A Go \<^verbatim>\<open>map[string]bool\<close> used as a set of names is a set.\<close>

definition getCdromDisks :: "'x VirtualMachine \<Rightarrow> 'x Disk list" where
  "getCdromDisks vm =
     (case spec_Template (vm_Spec vm) of
        None \<Rightarrow> []
      | Some t \<Rightarrow>
          filter (\<lambda>disk. disk_CDRom disk \<noteq> None)
            (dev_Disks (dom_Devices (vmi_Domain (tmpl_Spec t)))))"

definition isVolumeHotpluggable :: "'x Volume \<Rightarrow> bool" where
  "isVolumeHotpluggable volume =
     (if (case vol_DataVolume volume of None \<Rightarrow> False | Some dv \<Rightarrow> dv_Hotpluggable dv)
      then True
      else if (case vol_PersistentVolumeClaim volume of
                 None \<Rightarrow> False | Some pvc \<Rightarrow> pvc_Hotpluggable pvc)
      then True
      else False)"

definition getHotpluggableCdromVolumes :: "'x VirtualMachine \<Rightarrow> 'x Volume list" where
  "getHotpluggableCdromVolumes vm =
     (case spec_Template (vm_Spec vm) of
        None \<Rightarrow> []
      | Some t \<Rightarrow>
          (let cdromDiskNames =
                 set (map disk_Name
                   (filter (\<lambda>disk. disk_CDRom disk \<noteq> None)
                     (dev_Disks (dom_Devices (vmi_Domain (tmpl_Spec t))))))
           in filter (\<lambda>volume. vol_Name volume \<in> cdromDiskNames \<and> isVolumeHotpluggable volume)
                (vmi_Volumes (tmpl_Spec t))))"

definition getHotpluggableCdromVolumeNames :: "'x VirtualMachine \<Rightarrow> string set" where
  "getHotpluggableCdromVolumeNames vm = set (map vol_Name (getHotpluggableCdromVolumes vm))"

definition filterOutVolumes :: "'x Volume list \<Rightarrow> string set \<Rightarrow> 'x Volume list" where
  "filterOutVolumes volumes namesToRemove =
     filter (\<lambda>vol. vol_Name vol \<notin> namesToRemove) volumes"

definition Cdrom_HasChanged :: "'x VirtualMachine \<Rightarrow> 'x VirtualMachine \<Rightarrow> panic + bool" where
  "Cdrom_HasChanged oldVM newVM =
     (let oldCdromDisks = getCdromDisks oldVM;
          newCdromDisks = getCdromDisks newVM
      in if oldCdromDisks \<noteq> newCdromDisks then Inr False
         else
           (let oldCdromVolumes = getHotpluggableCdromVolumes oldVM;
                newCdromVolumes = getHotpluggableCdromVolumes newVM
            in Inr (oldCdromVolumes \<noteq> newCdromVolumes)))"

definition Cdrom_Neutralize ::
  "'x VirtualMachine \<Rightarrow> 'x VirtualMachine \<Rightarrow> 'x VirtualMachine \<times> 'x VirtualMachine" where
  "Cdrom_Neutralize oldVM newVM =
     (if templateIsNil oldVM \<or> templateIsNil newVM then (oldVM, newVM)
      else
        (let oldCdromNames = getHotpluggableCdromVolumeNames oldVM;
             newCdromNames = getHotpluggableCdromVolumeNames newVM;
             cdromNames = oldCdromNames \<union> newCdromNames;
             oldVM = onTemplateSpec
                       (\<lambda>s. s\<lparr>vmi_Volumes := filterOutVolumes (vmi_Volumes s) cdromNames\<rparr>) oldVM;
             newVM = onTemplateSpec
                       (\<lambda>s. s\<lparr>vmi_Volumes := filterOutVolumes (vmi_Volumes s) cdromNames\<rparr>) newVM
         in (oldVM, newVM)))"

subsection \<open>NetworkPermissionChecker\<close>

definition Network_HasChanged :: "'x VirtualMachine \<Rightarrow> 'x VirtualMachine \<Rightarrow> panic + bool" where
  "Network_HasChanged oldVM newVM =
     (case (spec_Template (vm_Spec oldVM), spec_Template (vm_Spec newVM)) of
        (Some oldT, Some newT) \<Rightarrow>
          (let interfacesChanged =
                 (dev_Interfaces (dom_Devices (vmi_Domain (tmpl_Spec oldT))) \<noteq>
                  dev_Interfaces (dom_Devices (vmi_Domain (tmpl_Spec newT))));
               networksChanged = (vmi_Networks (tmpl_Spec oldT) \<noteq> vmi_Networks (tmpl_Spec newT))
           in Inr (interfacesChanged \<or> networksChanged))
      | _ \<Rightarrow> Inr False)"

definition Network_Neutralize ::
  "'x VirtualMachine \<Rightarrow> 'x VirtualMachine \<Rightarrow> 'x VirtualMachine \<times> 'x VirtualMachine" where
  "Network_Neutralize oldVM newVM =
     (if templateIsNil oldVM \<or> templateIsNil newVM then (oldVM, newVM)
      else
        (let oldVM = onTemplateSpec (onDevices (\<lambda>d. d\<lparr>dev_Interfaces := []\<rparr>)) oldVM;
             newVM = onTemplateSpec (onDevices (\<lambda>d. d\<lparr>dev_Interfaces := []\<rparr>)) newVM;
             oldVM = onTemplateSpec (\<lambda>s. s\<lparr>vmi_Networks := []\<rparr>) oldVM;
             newVM = onTemplateSpec (\<lambda>s. s\<lparr>vmi_Networks := []\<rparr>) newVM
         in (oldVM, newVM)))"

subsection \<open>ComputePermissionChecker\<close>

text \<open>\<^verbatim>\<open>kubevirtiov1.ResourceRequirements{}\<close>, the zero value of the struct.\<close>

definition emptyResourceRequirements :: "'x ResourceRequirements" where
  "emptyResourceRequirements =
     \<lparr>res_Requests = Map.empty, res_Limits = Map.empty, res_OvercommitGuestOverhead = False\<rparr>"

definition Compute_HasChanged :: "'x VirtualMachine \<Rightarrow> 'x VirtualMachine \<Rightarrow> panic + bool" where
  "Compute_HasChanged oldVM newVM =
     (case (spec_Template (vm_Spec oldVM), spec_Template (vm_Spec newVM)) of
        (Some oldT, Some newT) \<Rightarrow>
          (let cpuChanged =
                 (dom_CPU (vmi_Domain (tmpl_Spec oldT)) \<noteq> dom_CPU (vmi_Domain (tmpl_Spec newT)));
               resourcesChanged =
                 (dom_Resources (vmi_Domain (tmpl_Spec oldT)) \<noteq>
                  dom_Resources (vmi_Domain (tmpl_Spec newT)))
           in Inr (cpuChanged \<or> resourcesChanged))
      | _ \<Rightarrow> Inr False)"

definition Compute_Neutralize ::
  "'x VirtualMachine \<Rightarrow> 'x VirtualMachine \<Rightarrow> 'x VirtualMachine \<times> 'x VirtualMachine" where
  "Compute_Neutralize oldVM newVM =
     (if templateIsNil oldVM \<or> templateIsNil newVM then (oldVM, newVM)
      else
        (let oldVM = onTemplateSpec (onDomain (\<lambda>d. d\<lparr>dom_CPU := None\<rparr>)) oldVM;
             newVM = onTemplateSpec (onDomain (\<lambda>d. d\<lparr>dom_CPU := None\<rparr>)) newVM;
             oldVM = onTemplateSpec
                       (onDomain (\<lambda>d. d\<lparr>dom_Resources := emptyResourceRequirements\<rparr>)) oldVM;
             newVM = onTemplateSpec
                       (onDomain (\<lambda>d. d\<lparr>dom_Resources := emptyResourceRequirements\<rparr>)) newVM
         in (oldVM, newVM)))"

subsection \<open>DevicesPermissionChecker\<close>

definition Devices_HasChanged :: "'x VirtualMachine \<Rightarrow> 'x VirtualMachine \<Rightarrow> panic + bool" where
  "Devices_HasChanged oldVM newVM =
     (case (spec_Template (vm_Spec oldVM), spec_Template (vm_Spec newVM)) of
        (Some oldT, Some newT) \<Rightarrow>
          (let oldDevices = dom_Devices (vmi_Domain (tmpl_Spec oldT));
               newDevices = dom_Devices (vmi_Domain (tmpl_Spec newT));
               gpusChanged = (dev_GPUs oldDevices \<noteq> dev_GPUs newDevices);
               hostDevicesChanged = (dev_HostDevices oldDevices \<noteq> dev_HostDevices newDevices);
               watchdogChanged = (dev_Watchdog oldDevices \<noteq> dev_Watchdog newDevices);
               tpmChanged = (dev_TPM oldDevices \<noteq> dev_TPM newDevices);
               inputsChanged = (dev_Inputs oldDevices \<noteq> dev_Inputs newDevices)
           in Inr (gpusChanged \<or> hostDevicesChanged \<or> watchdogChanged \<or> tpmChanged \<or>
                   inputsChanged))
      | _ \<Rightarrow> Inr False)"

definition Devices_Neutralize ::
  "'x VirtualMachine \<Rightarrow> 'x VirtualMachine \<Rightarrow> 'x VirtualMachine \<times> 'x VirtualMachine" where
  "Devices_Neutralize oldVM newVM =
     (if templateIsNil oldVM \<or> templateIsNil newVM then (oldVM, newVM)
      else
        (let oldVM = onTemplateSpec (onDevices (\<lambda>d. d\<lparr>dev_GPUs := []\<rparr>)) oldVM;
             newVM = onTemplateSpec (onDevices (\<lambda>d. d\<lparr>dev_GPUs := []\<rparr>)) newVM;
             oldVM = onTemplateSpec (onDevices (\<lambda>d. d\<lparr>dev_HostDevices := []\<rparr>)) oldVM;
             newVM = onTemplateSpec (onDevices (\<lambda>d. d\<lparr>dev_HostDevices := []\<rparr>)) newVM;
             oldVM = onTemplateSpec (onDevices (\<lambda>d. d\<lparr>dev_Watchdog := None\<rparr>)) oldVM;
             newVM = onTemplateSpec (onDevices (\<lambda>d. d\<lparr>dev_Watchdog := None\<rparr>)) newVM;
             oldVM = onTemplateSpec (onDevices (\<lambda>d. d\<lparr>dev_TPM := None\<rparr>)) oldVM;
             newVM = onTemplateSpec (onDevices (\<lambda>d. d\<lparr>dev_TPM := None\<rparr>)) newVM;
             oldVM = onTemplateSpec (onDevices (\<lambda>d. d\<lparr>dev_Inputs := []\<rparr>)) oldVM;
             newVM = onTemplateSpec (onDevices (\<lambda>d. d\<lparr>dev_Inputs := []\<rparr>)) newVM
         in (oldVM, newVM)))"

subsection \<open>LifecyclePermissionChecker\<close>

definition Lifecycle_HasChanged :: "'x VirtualMachine \<Rightarrow> 'x VirtualMachine \<Rightarrow> panic + bool" where
  "Lifecycle_HasChanged oldVM newVM =
     (let runningChanged = (spec_Running (vm_Spec oldVM) \<noteq> spec_Running (vm_Spec newVM));
          runStrategyChanged =
            (spec_RunStrategy (vm_Spec oldVM) \<noteq> spec_RunStrategy (vm_Spec newVM))
      in Inr (runningChanged \<or> runStrategyChanged))"

definition Lifecycle_Neutralize ::
  "'x VirtualMachine \<Rightarrow> 'x VirtualMachine \<Rightarrow> 'x VirtualMachine \<times> 'x VirtualMachine" where
  "Lifecycle_Neutralize oldVM newVM =
     (let oldVM = oldVM\<lparr>vm_Spec := (vm_Spec oldVM)\<lparr>spec_Running := None\<rparr>\<rparr>;
          newVM = newVM\<lparr>vm_Spec := (vm_Spec newVM)\<lparr>spec_Running := None\<rparr>\<rparr>;
          oldVM = oldVM\<lparr>vm_Spec := (vm_Spec oldVM)\<lparr>spec_RunStrategy := None\<rparr>\<rparr>;
          newVM = newVM\<lparr>vm_Spec := (vm_Spec newVM)\<lparr>spec_RunStrategy := None\<rparr>\<rparr>
      in (oldVM, newVM))"

subsection \<open>Interface dispatch\<close>

fun HasChanged :: "checker \<Rightarrow> 'x VirtualMachine \<Rightarrow> 'x VirtualMachine \<Rightarrow> panic + bool" where
  "HasChanged StoragePermissionChecker = Storage_HasChanged"
| "HasChanged CdromUserPermissionChecker = Cdrom_HasChanged"
| "HasChanged NetworkPermissionChecker = Network_HasChanged"
| "HasChanged ComputePermissionChecker = Compute_HasChanged"
| "HasChanged DevicesPermissionChecker = Devices_HasChanged"
| "HasChanged LifecyclePermissionChecker = Lifecycle_HasChanged"

fun Neutralize ::
  "checker \<Rightarrow> 'x VirtualMachine \<Rightarrow> 'x VirtualMachine \<Rightarrow> 'x VirtualMachine \<times> 'x VirtualMachine"
  where
  "Neutralize StoragePermissionChecker = Storage_Neutralize"
| "Neutralize CdromUserPermissionChecker = Cdrom_Neutralize"
| "Neutralize NetworkPermissionChecker = Network_Neutralize"
| "Neutralize ComputePermissionChecker = Compute_Neutralize"
| "Neutralize DevicesPermissionChecker = Devices_Neutralize"
| "Neutralize LifecyclePermissionChecker = Lifecycle_Neutralize"

section \<open>The validating webhook (virtualmachine_webhook.go)\<close>

text \<open>
  \<^verbatim>\<open>PermissionChecker.CheckPermission\<close> is the only call that leaves the process. It is a
  parameter of the validator: a function of the user, the namespace, the VM name and the
  subresource that answers \<open>Inr b\<close> or fails with \<open>Inl err\<close>.

  To state which calls a run of the validator makes, every function of this section
  returns, next to its result, the list of the calls it made, in order.
\<close>

record UserInfo =
  user_Username :: string
  user_UID :: string
  user_Groups :: "string list"

datatype event =
  CheckPermissionCalled UserInfo string string string
  | DeepCopyCalled
  | HasChangedCalled checker
  | NeutralizeCalled checker
  | normalizeSystemMetadataCalled

record VirtualMachineCustomValidator =
  FieldCheckers :: "checker list"
  CheckPermission :: "UserInfo \<Rightarrow> string \<Rightarrow> string \<Rightarrow> string \<Rightarrow> string + bool"

text \<open>The checker list that \<^verbatim>\<open>SetupVirtualMachineWebhookWithManager\<close> registers.\<close>

definition registeredFieldCheckers :: "checker list" where
  "registeredFieldCheckers =
     [NetworkPermissionChecker, ComputePermissionChecker, DevicesPermissionChecker,
      LifecyclePermissionChecker, CdromUserPermissionChecker, StoragePermissionChecker]"

text \<open>
  A \<^verbatim>\<open>runtime.Object\<close> is a VirtualMachine or an object of another type (with its
  type name, which the error message prints). The context carries the admission request
  or none; of the request only \<^verbatim>\<open>UserInfo\<close> is read.
\<close>

datatype 'x Object = VirtualMachineObject "'x VirtualMachine" | OtherObject string

record AdmissionRequest =
  req_UserInfo :: UserInfo

text \<open>
  The errors the validator returns, one constructor per \<^verbatim>\<open>fmt.Errorf\<close>:
  \<^item> \<open>NotAVirtualMachine T\<close>: "expected a VirtualMachine object but got T";
  \<^item> \<open>NewObjNotAVirtualMachine T\<close>, \<open>OldObjNotAVirtualMachine T\<close>: the same for
    the newObj and the oldObj of an update;
  \<^item> \<open>NoAdmissionRequest\<close>: "failed to get admission request from context";
  \<^item> \<open>PermissionCheckFailed what err\<close>: "failed to check what permission: err";
  \<^item> \<open>MetadataViolation\<close>: "user does not have permission to modify VirtualMachine
    metadata";
  \<^item> \<open>SpecViolation\<close>: "user does not have permission to modify one or more
    VirtualMachine spec fields".
  The result \<^verbatim>\<open>(nil, nil)\<close> is \<open>Inr []\<close>: no warnings and no error.
\<close>

datatype verror =
  NotAVirtualMachine string
  | NewObjNotAVirtualMachine string
  | OldObjNotAVirtualMachine string
  | NoAdmissionRequest
  | PermissionCheckFailed string string
  | MetadataViolation
  | SpecViolation

type_synonym verdict = "verror + string list"

definition ValidateCreate ::
  "VirtualMachineCustomValidator \<Rightarrow> AdmissionRequest option \<Rightarrow> 'x Object \<Rightarrow>
   verdict \<times> event list" where
  "ValidateCreate v ctx obj =
     (case obj of
        OtherObject T \<Rightarrow> (Inl (NotAVirtualMachine T), [])
      | VirtualMachineObject virtualmachine \<Rightarrow> (Inr [], []))"

definition ValidateDelete ::
  "VirtualMachineCustomValidator \<Rightarrow> AdmissionRequest option \<Rightarrow> 'x Object \<Rightarrow>
   verdict \<times> event list" where
  "ValidateDelete v ctx obj =
     (case obj of
        OtherObject T \<Rightarrow> (Inl (NotAVirtualMachine T), [])
      | VirtualMachineObject virtualmachine \<Rightarrow> (Inr [], []))"

definition normalizeSystemMetadata ::
  "'x ObjectMeta \<Rightarrow> 'x ObjectMeta \<Rightarrow> 'x ObjectMeta \<times> 'x ObjectMeta" where
  "normalizeSystemMetadata oldMeta newMeta =
     (let oldMeta = oldMeta\<lparr>meta_ResourceVersion := []\<rparr>;
          newMeta = newMeta\<lparr>meta_ResourceVersion := []\<rparr>;
          oldMeta = oldMeta\<lparr>meta_Generation := 0\<rparr>;
          newMeta = newMeta\<lparr>meta_Generation := 0\<rparr>;
          oldMeta = oldMeta\<lparr>meta_ManagedFields := []\<rparr>;
          newMeta = newMeta\<lparr>meta_ManagedFields := []\<rparr>;
          oldMeta = oldMeta\<lparr>meta_SelfLink := []\<rparr>;
          newMeta = newMeta\<lparr>meta_SelfLink := []\<rparr>;
          oldMeta = oldMeta\<lparr>meta_UID := []\<rparr>;
          newMeta = newMeta\<lparr>meta_UID := []\<rparr>;
          oldMeta = oldMeta\<lparr>meta_CreationTimestamp := 0\<rparr>;
          newMeta = newMeta\<lparr>meta_CreationTimestamp := 0\<rparr>;
          oldMeta = oldMeta\<lparr>meta_DeletionTimestamp := None\<rparr>;
          newMeta = newMeta\<lparr>meta_DeletionTimestamp := None\<rparr>;
          oldMeta = oldMeta\<lparr>meta_DeletionGracePeriodSeconds := None\<rparr>;
          newMeta = newMeta\<lparr>meta_DeletionGracePeriodSeconds := None\<rparr>
      in (oldMeta, newMeta))"

text \<open>
  Step 2 of \<^verbatim>\<open>ValidateUpdate\<close>, the loop over \<^verbatim>\<open>v.FieldCheckers\<close> that fills
  \<^verbatim>\<open>subresourcePermissions\<close> and \<^verbatim>\<open>hasAnySubresource\<close>. The first failing query
  returns from the validator.
\<close>

fun checkSubresourcePermissions ::
  "VirtualMachineCustomValidator \<Rightarrow> UserInfo \<Rightarrow> string \<Rightarrow> string \<Rightarrow> checker list \<Rightarrow>
   bool \<times> (string \<rightharpoonup> bool) \<Rightarrow> (verror + bool \<times> (string \<rightharpoonup> bool)) \<times> event list" where
  "checkSubresourcePermissions v userInfo ns name [] (hasAnySubresource, subresourcePermissions) =
     (Inr (hasAnySubresource, subresourcePermissions), [])"
| "checkSubresourcePermissions v userInfo ns name (checker # rest)
     (hasAnySubresource, subresourcePermissions) =
     (case CheckPermission v userInfo ns name (Subresource checker) of
        Inl err \<Rightarrow>
          (Inl (PermissionCheckFailed (Name checker) err),
           [CheckPermissionCalled userInfo ns name (Subresource checker)])
      | Inr hasPermission \<Rightarrow>
          (let (r, calls) =
                 checkSubresourcePermissions v userInfo ns name rest
                   (if hasPermission then True else hasAnySubresource,
                    subresourcePermissions(Subresource checker \<mapsto> hasPermission))
           in (r, CheckPermissionCalled userInfo ns name (Subresource checker) # calls)))"

text \<open>
  Reading \<^verbatim>\<open>subresourcePermissions[key]\<close>: a Go map read of a missing key gives the
  zero value \<^verbatim>\<open>false\<close>.
\<close>

definition lookupPermission :: "(string \<rightharpoonup> bool) \<Rightarrow> string \<Rightarrow> bool" where
  "lookupPermission subresourcePermissions key =
     (case subresourcePermissions key of None \<Rightarrow> False | Some b \<Rightarrow> b)"

text \<open>
  Step 3, the loop over \<^verbatim>\<open>v.FieldCheckers\<close> on the two copies. A panic in
  \<^verbatim>\<open>HasChanged\<close> ends the run.
\<close>

fun runFieldCheckers ::
  "(string \<rightharpoonup> bool) \<Rightarrow> checker list \<Rightarrow> 'x VirtualMachine \<times> 'x VirtualMachine \<Rightarrow>
   (panic + 'x VirtualMachine \<times> 'x VirtualMachine) \<times> event list" where
  "runFieldCheckers subresourcePermissions [] (oldCopy, newCopy) = (Inr (oldCopy, newCopy), [])"
| "runFieldCheckers subresourcePermissions (checker # rest) (oldCopy, newCopy) =
     (case HasChanged checker oldCopy newCopy of
        Inl p \<Rightarrow> (Inl p, [HasChangedCalled checker])
      | Inr changed \<Rightarrow>
          (if changed then
             (let hasPermission = lookupPermission subresourcePermissions (Subresource checker)
              in if hasPermission then
                   (let (r, calls) =
                          runFieldCheckers subresourcePermissions rest
                            (Neutralize checker oldCopy newCopy)
                    in (r, HasChangedCalled checker # NeutralizeCalled checker # calls))
                 else
                   (let (r, calls) =
                          runFieldCheckers subresourcePermissions rest (oldCopy, newCopy)
                    in (r, HasChangedCalled checker # calls)))
           else
             (let (r, calls) = runFieldCheckers subresourcePermissions rest (oldCopy, newCopy)
              in (r, HasChangedCalled checker # calls))))"

text \<open>
  Steps 4 and 5: normalise the metadata of the two copies, compare \<^verbatim>\<open>Spec\<close> and
  \<^verbatim>\<open>ObjectMeta\<close>, and return the verdict.
\<close>

definition residualVerdict :: "'x VirtualMachine \<Rightarrow> 'x VirtualMachine \<Rightarrow> verdict" where
  "residualVerdict oldCopy newCopy =
     (let (oldMeta, newMeta) =
            normalizeSystemMetadata (vm_ObjectMeta oldCopy) (vm_ObjectMeta newCopy);
          oldCopy = oldCopy\<lparr>vm_ObjectMeta := oldMeta\<rparr>;
          newCopy = newCopy\<lparr>vm_ObjectMeta := newMeta\<rparr>;
          specChanged = (vm_Spec oldCopy \<noteq> vm_Spec newCopy);
          metadataChanged = (vm_ObjectMeta oldCopy \<noteq> vm_ObjectMeta newCopy)
      in if specChanged \<or> metadataChanged then
           (if metadataChanged then Inl MetadataViolation else Inl SpecViolation)
         else Inr [])"

text \<open>\<^verbatim>\<open>DeepCopy\<close> returns an independent copy: on values, the same value.\<close>

definition DeepCopy :: "'x VirtualMachine \<Rightarrow> 'x VirtualMachine" where
  "DeepCopy vm = vm"

definition ValidateUpdate ::
  "VirtualMachineCustomValidator \<Rightarrow> AdmissionRequest option \<Rightarrow> 'x Object \<Rightarrow> 'x Object \<Rightarrow>
   (panic + verdict) \<times> event list" where
  "ValidateUpdate v ctx oldObj newObj =
     (case newObj of
        OtherObject T \<Rightarrow> (Inr (Inl (NewObjNotAVirtualMachine T)), [])
      | VirtualMachineObject newVM \<Rightarrow>
     (case oldObj of
        OtherObject T \<Rightarrow> (Inr (Inl (OldObjNotAVirtualMachine T)), [])
      | VirtualMachineObject oldVM \<Rightarrow>
     (case ctx of
        None \<Rightarrow> (Inr (Inl NoAdmissionRequest), [])
      | Some req \<Rightarrow>
     (let userInfo = req_UserInfo req;
          ns = meta_Namespace (vm_ObjectMeta newVM);
          name = meta_Name (vm_ObjectMeta newVM);
          fullAdminCall = CheckPermissionCalled userInfo ns name ''virtualmachines/full-admin''
      in
     (case CheckPermission v userInfo ns name ''virtualmachines/full-admin'' of
        Inl err \<Rightarrow>
          (Inr (Inl (PermissionCheckFailed ''virtualmachines/full-admin'' err)),
           [fullAdminCall])
      | Inr hasFullAdminPermission \<Rightarrow>
     (if hasFullAdminPermission then (Inr (Inr []), [fullAdminCall])
      else
     (case checkSubresourcePermissions v userInfo ns name (FieldCheckers v) (False, Map.empty) of
        (Inl e, calls) \<Rightarrow> (Inr (Inl e), fullAdminCall # calls)
      | (Inr (hasAnySubresource, subresourcePermissions), calls) \<Rightarrow>
     (if \<not> hasAnySubresource then (Inr (Inr []), fullAdminCall # calls)
      else
     (let oldCopy = DeepCopy oldVM;
          newCopy = DeepCopy newVM
      in
     (case runFieldCheckers subresourcePermissions (FieldCheckers v) (oldCopy, newCopy) of
        (Inl p, calls') \<Rightarrow>
          (Inl p, fullAdminCall # calls @ [DeepCopyCalled, DeepCopyCalled] @ calls')
      | (Inr (oldCopy, newCopy), calls') \<Rightarrow>
          (Inr (residualVerdict oldCopy newCopy),
           fullAdminCall # calls @ [DeepCopyCalled, DeepCopyCalled] @ calls' @
             [normalizeSystemMetadataCalled])))))))))))"

section \<open>Example inputs\<close>

text \<open>
  Concrete requests, used to run the definitions above: a user, a VirtualMachine with a
  template, variants of it, and permission checkers that grant a fixed list of
  subresources.
\<close>

definition exampleUser :: UserInfo where
  "exampleUser = \<lparr>user_Username = ''alice'', user_UID = ''u1'', user_Groups = [''dev'']\<rparr>"

definition exampleRequest :: AdmissionRequest where
  "exampleRequest = \<lparr>req_UserInfo = exampleUser\<rparr>"

definition exampleDevices :: "nat Devices" where
  "exampleDevices =
     \<lparr>dev_Disks = [], dev_Filesystems = [], dev_Interfaces = [], dev_GPUs = [],
      dev_HostDevices = [], dev_Watchdog = None, dev_TPM = None, dev_Inputs = [],
      dev_Other = 0\<rparr>"

definition exampleDomain :: "nat DomainSpec" where
  "exampleDomain =
     \<lparr>dom_CPU = Some 2, dom_Resources = emptyResourceRequirements,
      dom_Devices = exampleDevices, dom_Other = 0\<rparr>"

definition exampleTemplate :: "nat VirtualMachineInstanceTemplateSpec" where
  "exampleTemplate =
     \<lparr>tmpl_ObjectMeta = 0,
      tmpl_Spec = \<lparr>vmi_Volumes = [], vmi_Networks = [], vmi_Domain = exampleDomain,
                   vmi_Other = 0\<rparr>\<rparr>"

definition exampleMeta :: "nat ObjectMeta" where
  "exampleMeta =
     \<lparr>meta_Name = ''vm1'', meta_Namespace = ''default'', meta_ResourceVersion = ''41'',
      meta_Generation = 1, meta_ManagedFields = [], meta_SelfLink = [], meta_UID = ''uid-1'',
      meta_CreationTimestamp = 1000, meta_DeletionTimestamp = None,
      meta_DeletionGracePeriodSeconds = None, meta_Labels = Map.empty,
      meta_Annotations = Map.empty, meta_Other = 0\<rparr>"

definition exampleVM :: "nat VirtualMachine" where
  "exampleVM =
     \<lparr>vm_TypeMeta = 0, vm_ObjectMeta = exampleMeta,
      vm_Spec = \<lparr>spec_Running = None, spec_RunStrategy = Some ''Always'',
                 spec_Template = Some exampleTemplate, spec_Other = 0\<rparr>,
      vm_Status = 0\<rparr>"

text \<open>The same VirtualMachine with \<^verbatim>\<open>Spec.Template\<close> nil.\<close>

definition noTemplateVM :: "nat VirtualMachine" where
  "noTemplateVM = exampleVM\<lparr>vm_Spec := (vm_Spec exampleVM)\<lparr>spec_Template := None\<rparr>\<rparr>"

text \<open>With the CPU changed, and with a label changed as well.\<close>

definition cpu4VM :: "nat VirtualMachine" where
  "cpu4VM = onTemplateSpec (onDomain (\<lambda>d. d\<lparr>dom_CPU := Some 4\<rparr>)) exampleVM"

definition relabelledVM :: "nat VirtualMachine" where
  "relabelledVM =
     cpu4VM\<lparr>vm_ObjectMeta := (vm_ObjectMeta cpu4VM)\<lparr>meta_Labels := [''team'' \<mapsto> ''b'']\<rparr>\<rparr>"

text \<open>With one CD-ROM disk \<open>cd0\<close> and the given volumes; a hotpluggable volume for it.\<close>

definition cdromDisk :: "nat Disk" where
  "cdromDisk = \<lparr>disk_Name = ''cd0'', disk_CDRom = Some 0, disk_Other = 0\<rparr>"

definition isoVolume :: "string \<Rightarrow> nat Volume" where
  "isoVolume dv =
     \<lparr>vol_Name = ''cd0'',
      vol_DataVolume = Some \<lparr>dv_Name = dv, dv_Hotpluggable = True\<rparr>,
      vol_PersistentVolumeClaim = None, vol_OtherSources = 0\<rparr>"

definition cdromVM :: "nat Volume list \<Rightarrow> nat VirtualMachine" where
  "cdromVM volumes =
     onTemplateSpec (\<lambda>s. s\<lparr>vmi_Volumes := volumes\<rparr>)
       (onTemplateSpec (onDevices (\<lambda>d. d\<lparr>dev_Disks := [cdromDisk]\<rparr>)) exampleVM)"

text \<open>
  More inputs for the CD-ROM checker: a disk that is not a CD-ROM, added next to \<open>cd0\<close>;
  a volume for \<open>cd0\<close> that is not hotpluggable; a hotpluggable volume whose name is not
  that of a CD-ROM disk; and a volume for \<open>cd0\<close> that is hotpluggable through its
  PersistentVolumeClaim source.
\<close>

definition plainDisk :: "nat Disk" where
  "plainDisk = \<lparr>disk_Name = ''disk0'', disk_CDRom = None, disk_Other = 0\<rparr>"

definition cdromAndPlainDiskVM :: "nat Volume list \<Rightarrow> nat VirtualMachine" where
  "cdromAndPlainDiskVM volumes =
     onTemplateSpec (onDevices (\<lambda>d. d\<lparr>dev_Disks := [cdromDisk, plainDisk]\<rparr>))
       (cdromVM volumes)"

definition coldVolume :: "string \<Rightarrow> nat Volume" where
  "coldVolume dv =
     \<lparr>vol_Name = ''cd0'',
      vol_DataVolume = Some \<lparr>dv_Name = dv, dv_Hotpluggable = False\<rparr>,
      vol_PersistentVolumeClaim = None, vol_OtherSources = 0\<rparr>"

definition dataVolume :: "string \<Rightarrow> nat Volume" where
  "dataVolume dv =
     \<lparr>vol_Name = ''data0'',
      vol_DataVolume = Some \<lparr>dv_Name = dv, dv_Hotpluggable = True\<rparr>,
      vol_PersistentVolumeClaim = None, vol_OtherSources = 0\<rparr>"

definition claimVolume :: "nat \<Rightarrow> nat Volume" where
  "claimVolume claim =
     \<lparr>vol_Name = ''cd0'', vol_DataVolume = None,
      vol_PersistentVolumeClaim = Some \<lparr>pvc_Source = claim, pvc_Hotpluggable = True\<rparr>,
      vol_OtherSources = 0\<rparr>"

text \<open>
  A permission checker that grants exactly the listed subresources, and one whose query
  for one subresource fails.
\<close>

definition grantOnly ::
  "string list \<Rightarrow> UserInfo \<Rightarrow> string \<Rightarrow> string \<Rightarrow> string \<Rightarrow> string + bool" where
  "grantOnly granted userInfo ns name subresource = Inr (subresource \<in> set granted)"

definition failingOn ::
  "string \<Rightarrow> string list \<Rightarrow> UserInfo \<Rightarrow> string \<Rightarrow> string \<Rightarrow> string \<Rightarrow> string + bool" where
  "failingOn broken granted userInfo ns name subresource =
     (if subresource = broken then Inl ''connection refused''
      else Inr (subresource \<in> set granted))"

definition exampleValidator :: "string list \<Rightarrow> VirtualMachineCustomValidator" where
  "exampleValidator granted =
     \<lparr>FieldCheckers = registeredFieldCheckers, CheckPermission = grantOnly granted\<rparr>"

definition failingValidator :: VirtualMachineCustomValidator where
  "failingValidator =
     \<lparr>FieldCheckers = registeredFieldCheckers,
      CheckPermission =
        failingOn ''virtualmachines/devices-admin'' [''virtualmachines/storage-admin'']\<rparr>"

text \<open>The calls of a run that are permission queries.\<close>

definition isCheckPermissionCalled :: "event \<Rightarrow> bool" where
  "isCheckPermissionCalled ev =
     (case ev of CheckPermissionCalled u ns nm sub \<Rightarrow> True | _ \<Rightarrow> False)"

section \<open>Footprints\<close>

text \<open>
  The fields of each checker's footprint, as its \<^verbatim>\<open>HasChanged\<close> reads them. A
  VirtualMachine with a nil \<^verbatim>\<open>Template\<close> has none of the fields below the template: its
  footprint is the erased value (nil, the empty struct), the value that
  \<^verbatim>\<open>getCdromDisks\<close> and \<^verbatim>\<open>getHotpluggableCdromVolumes\<close> return in that case. The
  footprint of the CD-ROM checker is \<^verbatim>\<open>getHotpluggableCdromVolumes\<close>.
\<close>

definition storageFootprint ::
  "'x VirtualMachine \<Rightarrow> 'x Volume list \<times> 'x Disk list \<times> 'x list" where
  "storageFootprint vm =
     (case spec_Template (vm_Spec vm) of
        None \<Rightarrow> ([], [], [])
      | Some t \<Rightarrow>
          (vmi_Volumes (tmpl_Spec t),
           dev_Disks (dom_Devices (vmi_Domain (tmpl_Spec t))),
           dev_Filesystems (dom_Devices (vmi_Domain (tmpl_Spec t)))))"

definition networkFootprint :: "'x VirtualMachine \<Rightarrow> 'x list \<times> 'x list" where
  "networkFootprint vm =
     (case spec_Template (vm_Spec vm) of
        None \<Rightarrow> ([], [])
      | Some t \<Rightarrow>
          (dev_Interfaces (dom_Devices (vmi_Domain (tmpl_Spec t))), vmi_Networks (tmpl_Spec t)))"

definition computeFootprint :: "'x VirtualMachine \<Rightarrow> 'x option \<times> 'x ResourceRequirements" where
  "computeFootprint vm =
     (case spec_Template (vm_Spec vm) of
        None \<Rightarrow> (None, emptyResourceRequirements)
      | Some t \<Rightarrow> (dom_CPU (vmi_Domain (tmpl_Spec t)), dom_Resources (vmi_Domain (tmpl_Spec t))))"

definition devicesFootprint ::
  "'x VirtualMachine \<Rightarrow> 'x list \<times> 'x list \<times> 'x option \<times> 'x option \<times> 'x list" where
  "devicesFootprint vm =
     (case spec_Template (vm_Spec vm) of
        None \<Rightarrow> ([], [], None, None, [])
      | Some t \<Rightarrow>
          (let d = dom_Devices (vmi_Domain (tmpl_Spec t))
           in (dev_GPUs d, dev_HostDevices d, dev_Watchdog d, dev_TPM d, dev_Inputs d)))"

definition lifecycleFootprint :: "'x VirtualMachine \<Rightarrow> bool option \<times> string option" where
  "lifecycleFootprint vm = (spec_Running (vm_Spec vm), spec_RunStrategy (vm_Spec vm))"

fun footprintsEqual :: "checker \<Rightarrow> 'x VirtualMachine \<Rightarrow> 'x VirtualMachine \<Rightarrow> bool" where
  "footprintsEqual StoragePermissionChecker a b = (storageFootprint a = storageFootprint b)"
| "footprintsEqual CdromUserPermissionChecker a b =
     (getHotpluggableCdromVolumes a = getHotpluggableCdromVolumes b)"
| "footprintsEqual NetworkPermissionChecker a b = (networkFootprint a = networkFootprint b)"
| "footprintsEqual ComputePermissionChecker a b = (computeFootprint a = computeFootprint b)"
| "footprintsEqual DevicesPermissionChecker a b = (devicesFootprint a = devicesFootprint b)"
| "footprintsEqual LifecyclePermissionChecker a b = (lifecycleFootprint a = lifecycleFootprint b)"


section \<open>The CD-ROM footprint in the words of the specification\<close>

text \<open>
  The two collections that section 4.2 of the specification names, written from its
  words and on the fields of the VirtualMachine, to compare the helper methods of
  \<^verbatim>\<open>CdromUserPermissionChecker\<close> with:
  \<^item> the optical-media disk attachments: the disks of the template whose \<^verbatim>\<open>CDRom\<close>
    target is set, each taken whole and in the order of the template;
  \<^item> the CD-ROM media: the volumes of the template that are bound by name to one of
    these disks and marked hotpluggable, that is, whose \<^verbatim>\<open>DataVolume\<close> source or
    \<^verbatim>\<open>PersistentVolumeClaim\<close> source has its \<^verbatim>\<open>Hotpluggable\<close> flag set.
  A VirtualMachine without a template has neither.
\<close>

definition spec_cdromAttachments :: "'x VirtualMachine \<Rightarrow> 'x Disk list" where
  "spec_cdromAttachments vm =
     (case spec_Template (vm_Spec vm) of
        None \<Rightarrow> []
      | Some t \<Rightarrow>
          [disk \<leftarrow> dev_Disks (dom_Devices (vmi_Domain (tmpl_Spec t))).
             case disk_CDRom disk of None \<Rightarrow> False | Some target \<Rightarrow> True])"

definition spec_cdromMedia :: "'x VirtualMachine \<Rightarrow> 'x Volume list" where
  "spec_cdromMedia vm =
     (case spec_Template (vm_Spec vm) of
        None \<Rightarrow> []
      | Some t \<Rightarrow>
          [volume \<leftarrow> vmi_Volumes (tmpl_Spec t).
             (\<exists>disk\<in>set (dev_Disks (dom_Devices (vmi_Domain (tmpl_Spec t)))).
                (case disk_CDRom disk of None \<Rightarrow> False | Some target \<Rightarrow> True) \<and>
                disk_Name disk = vol_Name volume) \<and>
             ((case vol_DataVolume volume of
                 None \<Rightarrow> False | Some dv \<Rightarrow> dv_Hotpluggable dv) \<or>
              (case vol_PersistentVolumeClaim volume of
                 None \<Rightarrow> False | Some pvc \<Rightarrow> pvc_Hotpluggable pvc))])"

section \<open>Verified properties\<close>

lemmas example_defs =
  exampleVM_def exampleMeta_def exampleTemplate_def exampleDomain_def exampleDevices_def
  exampleRequest_def exampleUser_def exampleValidator_def failingValidator_def grantOnly_def
  registeredFieldCheckers_def noTemplateVM_def failingOn_def cpu4VM_def relabelledVM_def
  cdromDisk_def isoVolume_def cdromVM_def onTemplateSpec_def onDomain_def onDevices_def
  emptyResourceRequirements_def

lemmas cdrom_example_defs =
  plainDisk_def cdromAndPlainDiskVM_def coldVolume_def dataVolume_def claimVolume_def

lemmas checker_defs =
  Storage_HasChanged_def Cdrom_HasChanged_def Network_HasChanged_def Compute_HasChanged_def
  Devices_HasChanged_def Lifecycle_HasChanged_def Storage_Neutralize_def Cdrom_Neutralize_def
  Network_Neutralize_def Compute_Neutralize_def Devices_Neutralize_def
  Lifecycle_Neutralize_def getCdromDisks_def getHotpluggableCdromVolumes_def
  getHotpluggableCdromVolumeNames_def filterOutVolumes_def isVolumeHotpluggable_def
  templateIsNil_def lookupPermission_def DeepCopy_def

subsection \<open>The permission queries of step 2\<close>

lemma checkSubresourcePermissions_all_false:
  assumes "\<forall>c\<in>set cs. CheckPermission v u ns nm (Subresource c) = Inr False"
  shows "\<exists>p. checkSubresourcePermissions v u ns nm cs (hasAny, perms) =
           (Inr (hasAny, p), map (\<lambda>c. CheckPermissionCalled u ns nm (Subresource c)) cs)"
  using assms
proof (induction cs arbitrary: perms)
  case Nil
  then show ?case by simp
next
  case (Cons c cs)
  from Cons.prems have rest: "\<forall>c\<in>set cs. CheckPermission v u ns nm (Subresource c) = Inr False"
    by simp
  obtain p where
    "checkSubresourcePermissions v u ns nm cs (hasAny, perms(Subresource c \<mapsto> False)) =
       (Inr (hasAny, p), map (\<lambda>c. CheckPermissionCalled u ns nm (Subresource c)) cs)"
    using Cons.IH [OF rest] by blast
  then show ?case using Cons.prems by simp
qed

lemma checkSubresourcePermissions_error:
  assumes "\<exists>c\<in>set cs. \<exists>e. CheckPermission v u ns nm (Subresource c) = Inl e"
  shows "\<exists>what e calls sub.
           checkSubresourcePermissions v u ns nm cs (hasAny, perms) =
             (Inl (PermissionCheckFailed what e), calls @ [CheckPermissionCalled u ns nm sub]) \<and>
           CheckPermission v u ns nm sub = Inl e \<and>
           (\<forall>ev\<in>set calls. isCheckPermissionCalled ev)"
  using assms
proof (induction cs arbitrary: hasAny perms)
  case Nil
  then show ?case by simp
next
  case (Cons c cs)
  show ?case
  proof (cases "CheckPermission v u ns nm (Subresource c)")
    case (Inl e)
    then have "checkSubresourcePermissions v u ns nm (c # cs) (hasAny, perms) =
        (Inl (PermissionCheckFailed (Name c) e),
         [] @ [CheckPermissionCalled u ns nm (Subresource c)])"
      by simp
    with Inl show ?thesis by (metis empty_iff list.set(1))
  next
    case (Inr b)
    with Cons.prems have "\<exists>c\<in>set cs. \<exists>e. CheckPermission v u ns nm (Subresource c) = Inl e"
      by auto
    from Cons.IH [OF this, of "if b then True else hasAny" "perms(Subresource c \<mapsto> b)"]
    obtain what e calls sub where
      r: "checkSubresourcePermissions v u ns nm cs
            (if b then True else hasAny, perms(Subresource c \<mapsto> b)) =
          (Inl (PermissionCheckFailed what e), calls @ [CheckPermissionCalled u ns nm sub])"
      and e: "CheckPermission v u ns nm sub = Inl e"
      and q: "\<forall>ev\<in>set calls. isCheckPermissionCalled ev"
      by blast
    have "checkSubresourcePermissions v u ns nm (c # cs) (hasAny, perms) =
        (Inl (PermissionCheckFailed what e),
         (CheckPermissionCalled u ns nm (Subresource c) # calls) @
           [CheckPermissionCalled u ns nm sub])"
      using Inr r by simp
    moreover have "\<forall>ev\<in>set (CheckPermissionCalled u ns nm (Subresource c) # calls).
        isCheckPermissionCalled ev"
      using q by (simp add: isCheckPermissionCalled_def)
    ultimately show ?thesis using e by blast
  qed
qed

subsection \<open>Full-admin bypass\<close>

text \<open>
  Claim C1. When the permission checker answers true for
  \<^verbatim>\<open>virtualmachines/full-admin\<close>, \<^verbatim>\<open>ValidateUpdate\<close> returns \<^verbatim>\<open>(nil, nil)\<close> for
  every old and new VirtualMachine, whatever the other grants are, and the only call it
  has made is that one permission query: no further query, no \<^verbatim>\<open>DeepCopy\<close>, no
  \<^verbatim>\<open>HasChanged\<close>, no \<^verbatim>\<open>Neutralize\<close>, no \<^verbatim>\<open>normalizeSystemMetadata\<close>.
\<close>

theorem full_admin_bypass:
  assumes "CheckPermission v (req_UserInfo req) (meta_Namespace (vm_ObjectMeta newVM))
             (meta_Name (vm_ObjectMeta newVM)) ''virtualmachines/full-admin'' = Inr True"
  shows "ValidateUpdate v (Some req) (VirtualMachineObject oldVM) (VirtualMachineObject newVM) =
           (Inr (Inr []),
            [CheckPermissionCalled (req_UserInfo req) (meta_Namespace (vm_ObjectMeta newVM))
               (meta_Name (vm_ObjectMeta newVM)) ''virtualmachines/full-admin''])"
  using assms by (simp add: ValidateUpdate_def Let_def)

theorem full_admin_bypass_witness:
  "CheckPermission (exampleValidator [''virtualmachines/full-admin'']) (req_UserInfo exampleRequest)
     (meta_Namespace (vm_ObjectMeta relabelledVM)) (meta_Name (vm_ObjectMeta relabelledVM))
     ''virtualmachines/full-admin'' = Inr True \<and>
   ValidateUpdate (exampleValidator [''virtualmachines/full-admin'']) (Some exampleRequest)
     (VirtualMachineObject exampleVM) (VirtualMachineObject relabelledVM) =
   (Inr (Inr []),
    [CheckPermissionCalled exampleUser ''default'' ''vm1'' ''virtualmachines/full-admin''])"
  using full_admin_bypass
    [of "exampleValidator [''virtualmachines/full-admin'']" exampleRequest relabelledVM exampleVM]
  by (simp add: example_defs)

subsection \<open>No granular grant\<close>

text \<open>
  Claim C2. When the permission checker answers false for
  \<^verbatim>\<open>virtualmachines/full-admin\<close> and false for the subresource of every checker of
  \<^verbatim>\<open>FieldCheckers\<close>, \<^verbatim>\<open>ValidateUpdate\<close> returns \<^verbatim>\<open>(nil, nil)\<close> for every old and
  new VirtualMachine, and the calls it has made are the permission queries only: no
  \<^verbatim>\<open>DeepCopy\<close>, no \<^verbatim>\<open>HasChanged\<close>, no \<^verbatim>\<open>Neutralize\<close>, no
  \<^verbatim>\<open>normalizeSystemMetadata\<close>.
\<close>

theorem no_grant_allows:
  assumes "CheckPermission v (req_UserInfo req) (meta_Namespace (vm_ObjectMeta newVM))
             (meta_Name (vm_ObjectMeta newVM)) ''virtualmachines/full-admin'' = Inr False"
    and "\<forall>c\<in>set (FieldCheckers v).
           CheckPermission v (req_UserInfo req) (meta_Namespace (vm_ObjectMeta newVM))
             (meta_Name (vm_ObjectMeta newVM)) (Subresource c) = Inr False"
  shows "ValidateUpdate v (Some req) (VirtualMachineObject oldVM) (VirtualMachineObject newVM) =
           (Inr (Inr []),
            CheckPermissionCalled (req_UserInfo req) (meta_Namespace (vm_ObjectMeta newVM))
               (meta_Name (vm_ObjectMeta newVM)) ''virtualmachines/full-admin'' #
            map (\<lambda>c. CheckPermissionCalled (req_UserInfo req)
                   (meta_Namespace (vm_ObjectMeta newVM)) (meta_Name (vm_ObjectMeta newVM))
                   (Subresource c)) (FieldCheckers v))"
proof -
  obtain p where
    "checkSubresourcePermissions v (req_UserInfo req) (meta_Namespace (vm_ObjectMeta newVM))
       (meta_Name (vm_ObjectMeta newVM)) (FieldCheckers v) (False, Map.empty) =
     (Inr (False, p),
      map (\<lambda>c. CheckPermissionCalled (req_UserInfo req) (meta_Namespace (vm_ObjectMeta newVM))
             (meta_Name (vm_ObjectMeta newVM)) (Subresource c)) (FieldCheckers v))"
    using checkSubresourcePermissions_all_false [OF assms(2)] by blast
  then show ?thesis
    using assms(1) by (simp add: ValidateUpdate_def Let_def)
qed

theorem no_grant_allows_witness:
  "CheckPermission (exampleValidator []) (req_UserInfo exampleRequest)
     (meta_Namespace (vm_ObjectMeta relabelledVM)) (meta_Name (vm_ObjectMeta relabelledVM))
     ''virtualmachines/full-admin'' = Inr False \<and>
   ValidateUpdate (exampleValidator []) (Some exampleRequest)
     (VirtualMachineObject exampleVM) (VirtualMachineObject relabelledVM) =
   (Inr (Inr []),
    [CheckPermissionCalled exampleUser ''default'' ''vm1'' ''virtualmachines/full-admin'',
     CheckPermissionCalled exampleUser ''default'' ''vm1'' ''virtualmachines/network-admin'',
     CheckPermissionCalled exampleUser ''default'' ''vm1'' ''virtualmachines/compute-admin'',
     CheckPermissionCalled exampleUser ''default'' ''vm1'' ''virtualmachines/devices-admin'',
     CheckPermissionCalled exampleUser ''default'' ''vm1'' ''virtualmachines/lifecycle-admin'',
     CheckPermissionCalled exampleUser ''default'' ''vm1'' ''virtualmachines/cdrom-user'',
     CheckPermissionCalled exampleUser ''default'' ''vm1'' ''virtualmachines/storage-admin''])"
  using no_grant_allows [of "exampleValidator []" exampleRequest relabelledVM exampleVM]
  by (simp add: example_defs)

subsection \<open>Residual difference and verdict\<close>

text \<open>
  Claim C3. When \<^verbatim>\<open>ValidateUpdate\<close> gets past steps 1 and 2 and the checker loop
  leaves the copies \<open>oldCopy\<close> and \<open>newCopy\<close>, the verdict is: the metadata error when
  the normalised \<^verbatim>\<open>ObjectMeta\<close> of the copies differ (tested first), otherwise the spec
  error when their \<^verbatim>\<open>Spec\<close> differ, otherwise \<^verbatim>\<open>(nil, nil)\<close>.
\<close>

theorem residual_verdict_rule:
  assumes "CheckPermission v (req_UserInfo req) (meta_Namespace (vm_ObjectMeta newVM))
             (meta_Name (vm_ObjectMeta newVM)) ''virtualmachines/full-admin'' = Inr False"
    and "checkSubresourcePermissions v (req_UserInfo req) (meta_Namespace (vm_ObjectMeta newVM))
           (meta_Name (vm_ObjectMeta newVM)) (FieldCheckers v) (False, Map.empty) =
         (Inr (True, subresourcePermissions), calls)"
    and "runFieldCheckers subresourcePermissions (FieldCheckers v)
           (DeepCopy oldVM, DeepCopy newVM) = (Inr (oldCopy, newCopy), calls')"
  shows "fst (ValidateUpdate v (Some req) (VirtualMachineObject oldVM)
                (VirtualMachineObject newVM)) =
         Inr (if fst (normalizeSystemMetadata (vm_ObjectMeta oldCopy) (vm_ObjectMeta newCopy)) \<noteq>
                 snd (normalizeSystemMetadata (vm_ObjectMeta oldCopy) (vm_ObjectMeta newCopy))
              then Inl MetadataViolation
              else if vm_Spec oldCopy \<noteq> vm_Spec newCopy then Inl SpecViolation
              else Inr [])"
  using assms
  by (simp add: ValidateUpdate_def Let_def residualVerdict_def split: prod.splits)

theorem residual_verdict_rule_witness:
  "fst (ValidateUpdate (exampleValidator [''virtualmachines/storage-admin''])
          (Some exampleRequest) (VirtualMachineObject exampleVM)
          (VirtualMachineObject relabelledVM)) = Inr (Inl MetadataViolation) \<and>
   fst (ValidateUpdate (exampleValidator [''virtualmachines/storage-admin''])
          (Some exampleRequest) (VirtualMachineObject exampleVM)
          (VirtualMachineObject cpu4VM)) = Inr (Inl SpecViolation)"
proof -
  let ?v = "exampleValidator [''virtualmachines/storage-admin'']"
  let ?p = "[''virtualmachines/network-admin'' \<mapsto> False,
             ''virtualmachines/compute-admin'' \<mapsto> False,
             ''virtualmachines/devices-admin'' \<mapsto> False,
             ''virtualmachines/lifecycle-admin'' \<mapsto> False,
             ''virtualmachines/cdrom-user'' \<mapsto> False,
             ''virtualmachines/storage-admin'' \<mapsto> True]"
  let ?q = "map (\<lambda>c. CheckPermissionCalled exampleUser ''default'' ''vm1'' (Subresource c))
              registeredFieldCheckers"
  let ?h = "map HasChangedCalled registeredFieldCheckers"
  have admin: "CheckPermission ?v (req_UserInfo exampleRequest)
      (meta_Namespace (vm_ObjectMeta new)) (meta_Name (vm_ObjectMeta new))
      ''virtualmachines/full-admin'' = Inr False" for new :: "nat VirtualMachine"
    by (simp add: example_defs)
  have perms1: "checkSubresourcePermissions ?v (req_UserInfo exampleRequest)
      (meta_Namespace (vm_ObjectMeta relabelledVM)) (meta_Name (vm_ObjectMeta relabelledVM))
      (FieldCheckers ?v) (False, Map.empty) = (Inr (True, ?p), ?q)"
    by (simp add: example_defs)
  have perms2: "checkSubresourcePermissions ?v (req_UserInfo exampleRequest)
      (meta_Namespace (vm_ObjectMeta cpu4VM)) (meta_Name (vm_ObjectMeta cpu4VM))
      (FieldCheckers ?v) (False, Map.empty) = (Inr (True, ?p), ?q)"
    by (simp add: example_defs)
  have loop1: "runFieldCheckers ?p (FieldCheckers ?v) (DeepCopy exampleVM, DeepCopy relabelledVM) =
      (Inr (exampleVM, relabelledVM), ?h)"
    by (simp add: example_defs checker_defs)
  have loop2: "runFieldCheckers ?p (FieldCheckers ?v) (DeepCopy exampleVM, DeepCopy cpu4VM) =
      (Inr (exampleVM, cpu4VM), ?h)"
    by (simp add: example_defs checker_defs)
  have labels: "Map.empty \<noteq> [''team'' \<mapsto> ''b'']"
    by (metis map_upd_nonempty)
  have "fst (ValidateUpdate ?v (Some exampleRequest) (VirtualMachineObject exampleVM)
          (VirtualMachineObject relabelledVM)) = Inr (Inl MetadataViolation)"
    using residual_verdict_rule [OF admin perms1 loop1] labels
    by (simp add: example_defs normalizeSystemMetadata_def)
  moreover
  have "fst (ValidateUpdate ?v (Some exampleRequest) (VirtualMachineObject exampleVM)
          (VirtualMachineObject cpu4VM)) = Inr (Inl SpecViolation)"
    using residual_verdict_rule [OF admin perms2 loop2]
    by (simp add: example_defs normalizeSystemMetadata_def)
  ultimately show ?thesis by simp
qed

subsection \<open>The guard of the CD-ROM checker\<close>

text \<open>
  The helper methods compute the two collections of the specification:
  \<^verbatim>\<open>getCdromDisks\<close> the disks whose \<^verbatim>\<open>CDRom\<close> target is set, and
  \<^verbatim>\<open>getHotpluggableCdromVolumes\<close> the hotpluggable volumes that carry the name of such
  a disk.
\<close>

lemma getCdromDisks_spec: "getCdromDisks vm = spec_cdromAttachments vm"
proof (cases "spec_Template (vm_Spec vm)")
  case None
  then show ?thesis
    by (simp add: getCdromDisks_def spec_cdromAttachments_def)
next
  case (Some t)
  have "(disk_CDRom disk \<noteq> None) =
      (case disk_CDRom disk of None \<Rightarrow> False | Some target \<Rightarrow> True)" for disk :: "'a Disk"
    by (cases "disk_CDRom disk") simp_all
  then show ?thesis
    by (simp add: getCdromDisks_def spec_cdromAttachments_def Some)
qed

lemma isVolumeHotpluggable_spec:
  "isVolumeHotpluggable volume =
     ((case vol_DataVolume volume of None \<Rightarrow> False | Some dv \<Rightarrow> dv_Hotpluggable dv) \<or>
      (case vol_PersistentVolumeClaim volume of
         None \<Rightarrow> False | Some pvc \<Rightarrow> pvc_Hotpluggable pvc))"
  by (simp add: isVolumeHotpluggable_def)

lemma getHotpluggableCdromVolumes_spec: "getHotpluggableCdromVolumes vm = spec_cdromMedia vm"
proof (cases "spec_Template (vm_Spec vm)")
  case None
  then show ?thesis
    by (simp add: getHotpluggableCdromVolumes_def spec_cdromMedia_def)
next
  case (Some t)
  let ?disks = "dev_Disks (dom_Devices (vmi_Domain (tmpl_Spec t)))"
  have bound: "(name \<in> set (map disk_Name (filter (\<lambda>disk. disk_CDRom disk \<noteq> None) ?disks))) =
      (\<exists>disk\<in>set ?disks.
         (case disk_CDRom disk of None \<Rightarrow> False | Some target \<Rightarrow> True) \<and>
         disk_Name disk = name)" for name
  proof
    assume "name \<in> set (map disk_Name (filter (\<lambda>disk. disk_CDRom disk \<noteq> None) ?disks))"
    then obtain disk where
      disk: "disk \<in> set ?disks" "disk_Name disk = name" and "disk_CDRom disk \<noteq> None"
      by auto
    then have "case disk_CDRom disk of None \<Rightarrow> False | Some target \<Rightarrow> True"
      by (cases "disk_CDRom disk") simp_all
    with disk show "\<exists>disk\<in>set ?disks.
        (case disk_CDRom disk of None \<Rightarrow> False | Some target \<Rightarrow> True) \<and> disk_Name disk = name"
      by blast
  next
    assume "\<exists>disk\<in>set ?disks.
        (case disk_CDRom disk of None \<Rightarrow> False | Some target \<Rightarrow> True) \<and> disk_Name disk = name"
    then obtain disk where
      "disk \<in> set ?disks" "disk_Name disk = name"
      "case disk_CDRom disk of None \<Rightarrow> False | Some target \<Rightarrow> True"
      by blast
    then have "disk \<in> set (filter (\<lambda>disk. disk_CDRom disk \<noteq> None) ?disks)" "disk_Name disk = name"
      by (cases "disk_CDRom disk"; simp)+
    then show "name \<in> set (map disk_Name (filter (\<lambda>disk. disk_CDRom disk \<noteq> None) ?disks))"
      by (metis image_eqI set_map)
  qed
  show ?thesis
    unfolding getHotpluggableCdromVolumes_def spec_cdromMedia_def Some option.case Let_def
      bound isVolumeHotpluggable_spec
    by (rule refl)
qed

text \<open>
  Claim C5. The CD-ROM disk attachments of a VirtualMachine, as \<^verbatim>\<open>getCdromDisks\<close>
  extracts them, are its disks whose \<^verbatim>\<open>CDRom\<close> target is set, and
  \<^verbatim>\<open>getHotpluggableCdromVolumes\<close> extracts its hotpluggable volumes bound by name to
  such a disk. \<^verbatim>\<open>CdromUserPermissionChecker.HasChanged\<close> returns false whenever the
  attachments of the old and of the new VirtualMachine differ; only when they are equal
  does it return whether these volumes differ.
\<close>

theorem cdrom_HasChanged_guard:
  "getCdromDisks vm = spec_cdromAttachments vm \<and>
   getHotpluggableCdromVolumes vm = spec_cdromMedia vm \<and>
   (spec_cdromAttachments oldVM \<noteq> spec_cdromAttachments newVM \<longrightarrow>
      HasChanged CdromUserPermissionChecker oldVM newVM = Inr False) \<and>
   (spec_cdromAttachments oldVM = spec_cdromAttachments newVM \<longrightarrow>
      HasChanged CdromUserPermissionChecker oldVM newVM =
        Inr (spec_cdromMedia oldVM \<noteq> spec_cdromMedia newVM))"
  by (simp add: Cdrom_HasChanged_def Let_def getCdromDisks_spec
      getHotpluggableCdromVolumes_spec)

text \<open>
  The theorem at concrete updates: a CD-ROM disk added (false); the medium of \<open>cd0\<close>
  swapped (true); the medium swapped while a disk that is not a CD-ROM is added (true);
  a volume of \<open>cd0\<close> that is not hotpluggable swapped (false); a hotpluggable volume that
  carries no CD-ROM disk's name swapped (false); a medium that is hotpluggable through its
  PersistentVolumeClaim source swapped (true).
\<close>

theorem cdrom_HasChanged_guard_witness:
  "getCdromDisks (cdromAndPlainDiskVM [isoVolume ''a.iso'', dataVolume ''d1'']) = [cdromDisk] \<and>
   getHotpluggableCdromVolumes
     (cdromAndPlainDiskVM [isoVolume ''a.iso'', dataVolume ''d1'', coldVolume ''c.iso'']) =
     [isoVolume ''a.iso''] \<and>
   HasChanged CdromUserPermissionChecker exampleVM (cdromVM [isoVolume ''a.iso'']) = Inr False \<and>
   HasChanged CdromUserPermissionChecker (cdromVM [isoVolume ''a.iso''])
     (cdromVM [isoVolume ''b.iso'']) = Inr True \<and>
   HasChanged CdromUserPermissionChecker (cdromVM [isoVolume ''a.iso''])
     (cdromAndPlainDiskVM [isoVolume ''b.iso'']) = Inr True \<and>
   HasChanged CdromUserPermissionChecker (cdromVM [coldVolume ''a.iso''])
     (cdromVM [coldVolume ''b.iso'']) = Inr False \<and>
   HasChanged CdromUserPermissionChecker (cdromVM [isoVolume ''a.iso'', dataVolume ''d1''])
     (cdromVM [isoVolume ''a.iso'', dataVolume ''d2'']) = Inr False \<and>
   HasChanged CdromUserPermissionChecker (cdromVM [claimVolume 1])
     (cdromVM [claimVolume 2]) = Inr True"
  using
    cdrom_HasChanged_guard
      [of "cdromAndPlainDiskVM [isoVolume ''a.iso'', dataVolume ''d1'']"
          exampleVM "cdromVM [isoVolume ''a.iso'']"]
    cdrom_HasChanged_guard
      [of "cdromAndPlainDiskVM [isoVolume ''a.iso'', dataVolume ''d1'', coldVolume ''c.iso'']"
          "cdromVM [isoVolume ''a.iso'']" "cdromVM [isoVolume ''b.iso'']"]
    cdrom_HasChanged_guard
      [of exampleVM "cdromVM [isoVolume ''a.iso'']" "cdromAndPlainDiskVM [isoVolume ''b.iso'']"]
    cdrom_HasChanged_guard
      [of exampleVM "cdromVM [coldVolume ''a.iso'']" "cdromVM [coldVolume ''b.iso'']"]
    cdrom_HasChanged_guard
      [of exampleVM "cdromVM [isoVolume ''a.iso'', dataVolume ''d1'']"
          "cdromVM [isoVolume ''a.iso'', dataVolume ''d2'']"]
    cdrom_HasChanged_guard
      [of exampleVM "cdromVM [claimVolume 1]" "cdromVM [claimVolume 2]"]
  by (simp add: example_defs cdrom_example_defs spec_cdromAttachments_def spec_cdromMedia_def)

subsection \<open>Failing permission queries\<close>

text \<open>
  Claim C6. When the full-admin query fails, or it answers false and the query for the
  subresource of some checker of \<^verbatim>\<open>FieldCheckers\<close> fails, \<^verbatim>\<open>ValidateUpdate\<close>
  returns the error of a failed permission check (neither \<^verbatim>\<open>(nil, nil)\<close> nor one of the
  two permission-denied errors), the last call it has made is the failed query, and all
  calls before it are permission queries: no \<^verbatim>\<open>DeepCopy\<close>, \<^verbatim>\<open>HasChanged\<close>,
  \<^verbatim>\<open>Neutralize\<close> or \<^verbatim>\<open>normalizeSystemMetadata\<close>.
\<close>

theorem oracle_error_aborts:
  assumes "CheckPermission v (req_UserInfo req) (meta_Namespace (vm_ObjectMeta newVM))
             (meta_Name (vm_ObjectMeta newVM)) ''virtualmachines/full-admin'' = Inl err \<or>
           (CheckPermission v (req_UserInfo req) (meta_Namespace (vm_ObjectMeta newVM))
              (meta_Name (vm_ObjectMeta newVM)) ''virtualmachines/full-admin'' = Inr False \<and>
            (\<exists>c\<in>set (FieldCheckers v). \<exists>e.
               CheckPermission v (req_UserInfo req) (meta_Namespace (vm_ObjectMeta newVM))
                 (meta_Name (vm_ObjectMeta newVM)) (Subresource c) = Inl e))"
  shows "\<exists>what e calls sub.
           ValidateUpdate v (Some req) (VirtualMachineObject oldVM) (VirtualMachineObject newVM) =
             (Inr (Inl (PermissionCheckFailed what e)),
              calls @ [CheckPermissionCalled (req_UserInfo req)
                         (meta_Namespace (vm_ObjectMeta newVM))
                         (meta_Name (vm_ObjectMeta newVM)) sub]) \<and>
           CheckPermission v (req_UserInfo req) (meta_Namespace (vm_ObjectMeta newVM))
             (meta_Name (vm_ObjectMeta newVM)) sub = Inl e \<and>
           (\<forall>ev\<in>set calls. isCheckPermissionCalled ev)"
proof -
  let ?u = "req_UserInfo req"
  let ?ns = "meta_Namespace (vm_ObjectMeta newVM)"
  let ?nm = "meta_Name (vm_ObjectMeta newVM)"
  let ?fa = "''virtualmachines/full-admin''"
  from assms consider
    (admin) "CheckPermission v ?u ?ns ?nm ?fa = Inl err"
    | (granular) "CheckPermission v ?u ?ns ?nm ?fa = Inr False"
        "\<exists>c\<in>set (FieldCheckers v). \<exists>e. CheckPermission v ?u ?ns ?nm (Subresource c) = Inl e"
    by blast
  then show ?thesis
  proof cases
    case admin
    then have "ValidateUpdate v (Some req) (VirtualMachineObject oldVM)
        (VirtualMachineObject newVM) =
        (Inr (Inl (PermissionCheckFailed ?fa err)), [] @ [CheckPermissionCalled ?u ?ns ?nm ?fa])"
      by (simp add: ValidateUpdate_def Let_def)
    with admin show ?thesis by (metis empty_iff list.set(1))
  next
    case granular
    from checkSubresourcePermissions_error [OF granular(2), of False Map.empty]
    obtain what e calls sub where
      r: "checkSubresourcePermissions v ?u ?ns ?nm (FieldCheckers v) (False, Map.empty) =
          (Inl (PermissionCheckFailed what e), calls @ [CheckPermissionCalled ?u ?ns ?nm sub])"
      and e: "CheckPermission v ?u ?ns ?nm sub = Inl e"
      and q: "\<forall>ev\<in>set calls. isCheckPermissionCalled ev"
      by blast
    have "ValidateUpdate v (Some req) (VirtualMachineObject oldVM)
        (VirtualMachineObject newVM) =
        (Inr (Inl (PermissionCheckFailed what e)),
         (CheckPermissionCalled ?u ?ns ?nm ?fa # calls) @ [CheckPermissionCalled ?u ?ns ?nm sub])"
      using granular(1) r by (simp add: ValidateUpdate_def Let_def)
    moreover have "\<forall>ev\<in>set (CheckPermissionCalled ?u ?ns ?nm ?fa # calls).
        isCheckPermissionCalled ev"
      using q by (simp add: isCheckPermissionCalled_def)
    ultimately show ?thesis using e by blast
  qed
qed

theorem oracle_error_aborts_witness:
  "CheckPermission failingValidator exampleUser ''default'' ''vm1''
     ''virtualmachines/full-admin'' = Inr False \<and>
   CheckPermission failingValidator exampleUser ''default'' ''vm1''
     (Subresource DevicesPermissionChecker) = Inl ''connection refused'' \<and>
   ValidateUpdate failingValidator (Some exampleRequest) (VirtualMachineObject exampleVM)
     (VirtualMachineObject cpu4VM) =
   (Inr (Inl (PermissionCheckFailed ''devices'' ''connection refused'')),
    [CheckPermissionCalled exampleUser ''default'' ''vm1'' ''virtualmachines/full-admin'',
     CheckPermissionCalled exampleUser ''default'' ''vm1'' ''virtualmachines/network-admin'',
     CheckPermissionCalled exampleUser ''default'' ''vm1'' ''virtualmachines/compute-admin'',
     CheckPermissionCalled exampleUser ''default'' ''vm1'' ''virtualmachines/devices-admin''])"
  using oracle_error_aborts [of failingValidator exampleRequest cpu4VM "''none''" exampleVM]
  by (simp add: example_defs ValidateUpdate_def Let_def)

subsection \<open>Create and delete\<close>

text \<open>
  Claim C10. \<^verbatim>\<open>ValidateCreate\<close> and \<^verbatim>\<open>ValidateDelete\<close> return \<^verbatim>\<open>(nil, nil)\<close> for
  every VirtualMachine, whatever its fields, the validator and the request are, and make
  no permission query; for an object that is not a VirtualMachine both return an error.
  (The log line that prints the name of the object is not part of the model.)
\<close>

theorem create_delete_always_allowed:
  "ValidateCreate v ctx (VirtualMachineObject vm) = (Inr [], []) \<and>
   ValidateDelete v ctx (VirtualMachineObject vm) = (Inr [], []) \<and>
   ValidateCreate v ctx (OtherObject T) = (Inl (NotAVirtualMachine T), []) \<and>
   ValidateDelete v ctx (OtherObject T) = (Inl (NotAVirtualMachine T), [])"
  by (simp add: ValidateCreate_def ValidateDelete_def)

subsection \<open>Nil templates in the storage checker\<close>

lemma HasChanged_returns:
  assumes "c \<noteq> StoragePermissionChecker \<or> (\<not> templateIsNil oldVM \<and> \<not> templateIsNil newVM)"
  shows "\<exists>changed. HasChanged c oldVM newVM = Inr changed"
  using assms
  by (cases c)
    (auto simp: Storage_HasChanged_def Cdrom_HasChanged_def Network_HasChanged_def
      Compute_HasChanged_def Devices_HasChanged_def Lifecycle_HasChanged_def templateIsNil_def
      Let_def split: option.splits)

text \<open>
  Claim C9 says that \<^verbatim>\<open>HasChanged\<close> of every checker returns a boolean for every pair
  of VirtualMachines. \<^verbatim>\<open>StoragePermissionChecker.HasChanged\<close> does not: it panics when
  \<^verbatim>\<open>Spec.Template\<close> is nil in the old or in the new VirtualMachine, and with it an
  update by a user who holds a granular grant. The five other checkers return a boolean
  for every pair, and the storage checker does when both templates are present.
\<close>

theorem storage_HasChanged_nil_template:
  "HasChanged StoragePermissionChecker noTemplateVM exampleVM = Inl NilPointerDereference \<and>
   HasChanged StoragePermissionChecker exampleVM noTemplateVM = Inl NilPointerDereference \<and>
   fst (ValidateUpdate (exampleValidator [''virtualmachines/storage-admin''])
          (Some exampleRequest) (VirtualMachineObject noTemplateVM)
          (VirtualMachineObject noTemplateVM)) = Inl NilPointerDereference"
  by (simp add: example_defs checker_defs ValidateUpdate_def Let_def)

subsection \<open>Neutralize\<close>

lemmas footprint_defs =
  storageFootprint_def networkFootprint_def computeFootprint_def devicesFootprint_def
  lifecycleFootprint_def

lemma Neutralize_nil_template:
  assumes "templateIsNil oldVM \<or> templateIsNil newVM" and "c \<noteq> LifecyclePermissionChecker"
  shows "Neutralize c oldVM newVM = (oldVM, newVM)"
  using assms
  by (cases c)
    (simp_all add: Storage_Neutralize_def Cdrom_Neutralize_def Network_Neutralize_def
      Compute_Neutralize_def Devices_Neutralize_def)

lemma templateIsNil_onTemplateSpec [simp]:
  "templateIsNil (onTemplateSpec f vm) = templateIsNil vm"
  by (simp add: templateIsNil_def onTemplateSpec_def)

lemma hotpluggable_after_filter:
  assumes "getHotpluggableCdromVolumeNames vm \<subseteq> names"
  shows "getHotpluggableCdromVolumes
           (onTemplateSpec (\<lambda>s. s\<lparr>vmi_Volumes := filterOutVolumes (vmi_Volumes s) names\<rparr>) vm) = []"
proof (cases "spec_Template (vm_Spec vm)")
  case None
  then show ?thesis
    by (simp add: getHotpluggableCdromVolumes_def onTemplateSpec_def)
next
  case (Some t)
  let ?cd = "set (map disk_Name (filter (\<lambda>disk. disk_CDRom disk \<noteq> None)
               (dev_Disks (dom_Devices (vmi_Domain (tmpl_Spec t))))))"
  have "vol_Name vol \<in> names"
    if "vol \<in> set (vmi_Volumes (tmpl_Spec t))" "vol_Name vol \<in> ?cd" "isVolumeHotpluggable vol"
    for vol
  proof -
    from that have "vol \<in> set (getHotpluggableCdromVolumes vm)"
      by (simp add: getHotpluggableCdromVolumes_def Some)
    then have "vol_Name vol \<in> getHotpluggableCdromVolumeNames vm"
      by (simp add: getHotpluggableCdromVolumeNames_def)
    with assms show ?thesis by blast
  qed
  then have "filter (\<lambda>volume. vol_Name volume \<in> ?cd \<and> isVolumeHotpluggable volume)
      (filterOutVolumes (vmi_Volumes (tmpl_Spec t)) names) = []"
    by (auto simp: filter_empty_conv filterOutVolumes_def)
  then show ?thesis
    by (simp add: getHotpluggableCdromVolumes_def onTemplateSpec_def Some)
qed

lemma filterOutVolumes_empty [simp]: "filterOutVolumes vs {} = vs"
  by (simp add: filterOutVolumes_def)

lemma onTemplateSpec_id: "(\<And>s. f s = s) \<Longrightarrow> onTemplateSpec f vm = vm"
  by (cases "spec_Template (vm_Spec vm)") (simp_all add: onTemplateSpec_def)

lemma Cdrom_Neutralize_footprint:
  "footprintsEqual CdromUserPermissionChecker a b" 
  if "Cdrom_Neutralize oldVM newVM = (a, b)" "templateIsNil oldVM = templateIsNil newVM"
proof (cases "templateIsNil oldVM")
  case True
  with that show ?thesis
    by (auto simp: Cdrom_Neutralize_def getHotpluggableCdromVolumes_def templateIsNil_def)
next
  case False
  with that have
    "getHotpluggableCdromVolumes a = []" "getHotpluggableCdromVolumes b = []"
    by (auto simp: Cdrom_Neutralize_def Let_def intro!: hotpluggable_after_filter)
  then show ?thesis by simp
qed

lemma Cdrom_Neutralize_idem:
  assumes "Cdrom_Neutralize oldVM newVM = (a, b)"
  shows "Cdrom_Neutralize a b = (a, b)"
proof (cases "templateIsNil oldVM \<or> templateIsNil newVM")
  case True
  with assms show ?thesis by (auto simp: Cdrom_Neutralize_def)
next
  case False
  with assms have
    e: "getHotpluggableCdromVolumes a = []" "getHotpluggableCdromVolumes b = []"
    by (auto simp: Cdrom_Neutralize_def Let_def intro!: hotpluggable_after_filter)
  show ?thesis
    by (simp add: Cdrom_Neutralize_def Let_def getHotpluggableCdromVolumeNames_def e
        onTemplateSpec_id)
qed

lemma Neutralize_idem:
  assumes "Neutralize c oldVM newVM = (a, b)"
  shows "Neutralize c a b = (a, b)"
proof (cases c)
  case CdromUserPermissionChecker
  with assms show ?thesis using Cdrom_Neutralize_idem by simp
next
  case StoragePermissionChecker
  with assms show ?thesis
    by (auto simp: Storage_Neutralize_def Let_def onTemplateSpec_def onDevices_def onDomain_def
        templateIsNil_def split: if_splits)
next
  case NetworkPermissionChecker
  with assms show ?thesis
    by (auto simp: Network_Neutralize_def Let_def onTemplateSpec_def onDevices_def onDomain_def
        templateIsNil_def split: if_splits)
next
  case ComputePermissionChecker
  with assms show ?thesis
    by (auto simp: Compute_Neutralize_def Let_def onTemplateSpec_def onDevices_def onDomain_def
        templateIsNil_def split: if_splits)
next
  case DevicesPermissionChecker
  with assms show ?thesis
    by (auto simp: Devices_Neutralize_def Let_def onTemplateSpec_def onDevices_def onDomain_def
        templateIsNil_def split: if_splits)
next
  case LifecyclePermissionChecker
  with assms show ?thesis
    by (auto simp: Lifecycle_Neutralize_def Let_def)
qed

lemma Neutralize_footprint:
  assumes "Neutralize c oldVM newVM = (a, b)"
    and "templateIsNil oldVM = templateIsNil newVM \<or> c = LifecyclePermissionChecker"
  shows "footprintsEqual c a b"
proof (cases c)
  case CdromUserPermissionChecker
  with assms show ?thesis using Cdrom_Neutralize_footprint by auto
next
  case StoragePermissionChecker
  with assms show ?thesis
    by (auto simp: Storage_Neutralize_def Let_def onTemplateSpec_def onDevices_def onDomain_def
        templateIsNil_def footprint_defs split: if_splits option.splits)
next
  case NetworkPermissionChecker
  with assms show ?thesis
    by (auto simp: Network_Neutralize_def Let_def onTemplateSpec_def onDevices_def onDomain_def
        templateIsNil_def footprint_defs split: if_splits option.splits)
next
  case ComputePermissionChecker
  with assms show ?thesis
    by (auto simp: Compute_Neutralize_def Let_def onTemplateSpec_def onDevices_def onDomain_def
        templateIsNil_def footprint_defs split: if_splits option.splits)
next
  case DevicesPermissionChecker
  with assms show ?thesis
    by (auto simp: Devices_Neutralize_def Let_def onTemplateSpec_def onDevices_def onDomain_def
        templateIsNil_def footprint_defs split: if_splits option.splits)
next
  case LifecyclePermissionChecker
  with assms show ?thesis
    by (auto simp: Lifecycle_Neutralize_def Let_def footprint_defs)
qed

text \<open>
  Claim C8 says that after \<^verbatim>\<open>Neutralize\<close> the footprint of the checker compares equal
  in the two copies, whatever the copies were, a nil \<^verbatim>\<open>Spec.Template\<close> included. With
  the template nil in one copy only, \<^verbatim>\<open>Neutralize\<close> of the CD-ROM checker and of the
  storage checker return at their nil check and the footprints still differ.
\<close>

theorem neutralize_nil_template_counterexample:
  "\<not> footprintsEqual CdromUserPermissionChecker
       (fst (Neutralize CdromUserPermissionChecker noTemplateVM (cdromVM [isoVolume ''a.iso''])))
       (snd (Neutralize CdromUserPermissionChecker noTemplateVM (cdromVM [isoVolume ''a.iso'']))) \<and>
   \<not> footprintsEqual StoragePermissionChecker
       (fst (Neutralize StoragePermissionChecker noTemplateVM (cdromVM [isoVolume ''a.iso''])))
       (snd (Neutralize StoragePermissionChecker noTemplateVM (cdromVM [isoVolume ''a.iso''])))"
  by (simp add: example_defs checker_defs footprint_defs)


text \<open>
  Claim C8, amended. For every checker and every pair of copies, a second
  \<^verbatim>\<open>Neutralize\<close> changes nothing. After \<^verbatim>\<open>Neutralize\<close> the footprint of the checker
  compares equal in the two copies when \<^verbatim>\<open>Spec.Template\<close> is nil in both copies or in
  neither (for the lifecycle checker: always). When the template is nil in a copy,
  \<^verbatim>\<open>Neutralize\<close> of the five other checkers leaves both copies as they are.
\<close>

theorem neutralize_idempotent_equalising:
  "Neutralize c (fst (Neutralize c oldVM newVM)) (snd (Neutralize c oldVM newVM)) =
     Neutralize c oldVM newVM \<and>
   (templateIsNil oldVM = templateIsNil newVM \<or> c = LifecyclePermissionChecker \<longrightarrow>
      footprintsEqual c (fst (Neutralize c oldVM newVM)) (snd (Neutralize c oldVM newVM))) \<and>
   ((templateIsNil oldVM \<or> templateIsNil newVM) \<and> c \<noteq> LifecyclePermissionChecker \<longrightarrow>
      Neutralize c oldVM newVM = (oldVM, newVM))"
proof -
  obtain a b where r: "Neutralize c oldVM newVM = (a, b)"
    by (cases "Neutralize c oldVM newVM")
  show ?thesis
    using Neutralize_idem [OF r] Neutralize_footprint [OF r] Neutralize_nil_template [of oldVM newVM c]
    by (simp add: r)
qed

theorem neutralize_idempotent_equalising_witness:
  "Neutralize CdromUserPermissionChecker
     (fst (Neutralize CdromUserPermissionChecker (cdromVM [isoVolume ''a.iso''])
        (cdromVM [isoVolume ''b.iso''])))
     (snd (Neutralize CdromUserPermissionChecker (cdromVM [isoVolume ''a.iso''])
        (cdromVM [isoVolume ''b.iso'']))) =
     Neutralize CdromUserPermissionChecker (cdromVM [isoVolume ''a.iso''])
       (cdromVM [isoVolume ''b.iso'']) \<and>
   templateIsNil (cdromVM [isoVolume ''a.iso'']) = templateIsNil (cdromVM [isoVolume ''b.iso'']) \<and>
   footprintsEqual CdromUserPermissionChecker
     (fst (Neutralize CdromUserPermissionChecker (cdromVM [isoVolume ''a.iso''])
        (cdromVM [isoVolume ''b.iso''])))
     (snd (Neutralize CdromUserPermissionChecker (cdromVM [isoVolume ''a.iso''])
        (cdromVM [isoVolume ''b.iso'']))) \<and>
   templateIsNil noTemplateVM \<and>
   Neutralize StoragePermissionChecker noTemplateVM (cdromVM [isoVolume ''a.iso'']) =
     (noTemplateVM, cdromVM [isoVolume ''a.iso''])"
  using neutralize_idempotent_equalising
      [of CdromUserPermissionChecker "cdromVM [isoVolume ''a.iso'']" "cdromVM [isoVolume ''b.iso'']"]
    neutralize_idempotent_equalising
      [of StoragePermissionChecker noTemplateVM "cdromVM [isoVolume ''a.iso'']"]
  by (simp add: templateIsNil_def example_defs)

subsection \<open>The steps of the update validator\<close>

lemma checkSubresourcePermissions_answered:
  assumes "\<forall>c\<in>set cs. \<exists>b. CheckPermission v u ns nm (Subresource c) = Inr b"
  shows "fst (checkSubresourcePermissions v u ns nm cs (hasAny, perms)) =
           Inr (hasAny \<or> (\<exists>c\<in>set cs. CheckPermission v u ns nm (Subresource c) = Inr True),
                \<lambda>k. if k \<in> Subresource ` set cs
                    then Some (CheckPermission v u ns nm k = Inr True) else perms k)"
  using assms
proof (induction cs arbitrary: hasAny perms)
  case Nil
  then show ?case by simp
next
  case (Cons c cs)
  then obtain b where b: "CheckPermission v u ns nm (Subresource c) = Inr b"
    by auto
  from Cons.prems have rest: "\<forall>c\<in>set cs. \<exists>b. CheckPermission v u ns nm (Subresource c) = Inr b"
    by simp
  have "fst (checkSubresourcePermissions v u ns nm (c # cs) (hasAny, perms)) =
      fst (checkSubresourcePermissions v u ns nm cs
             (if b then True else hasAny, perms(Subresource c \<mapsto> b)))"
    by (simp add: b split: prod.splits)
  also have "\<dots> =
      Inr ((if b then True else hasAny) \<or>
             (\<exists>c\<in>set cs. CheckPermission v u ns nm (Subresource c) = Inr True),
           \<lambda>k. if k \<in> Subresource ` set cs
               then Some (CheckPermission v u ns nm k = Inr True)
               else (perms(Subresource c \<mapsto> b)) k)"
    by (rule Cons.IH [OF rest])
  also have "\<dots> =
      Inr (hasAny \<or> (\<exists>c\<in>set (c # cs). CheckPermission v u ns nm (Subresource c) = Inr True),
           \<lambda>k. if k \<in> Subresource ` set (c # cs)
               then Some (CheckPermission v u ns nm k = Inr True) else perms k)"
    using b by (auto simp: fun_eq_iff)
  finally show ?case .
qed

lemma runFieldCheckers_unchanged:
  assumes "\<forall>c\<in>set cs. HasChanged c oldCopy newCopy = Inr False \<or>
             (HasChanged c oldCopy newCopy = Inr True \<and>
              \<not> lookupPermission perms (Subresource c))"
  shows "runFieldCheckers perms cs (oldCopy, newCopy) =
           (Inr (oldCopy, newCopy), map HasChangedCalled cs)"
  using assms by (induction cs) auto

lemma HasChanged_spec_differs:
  assumes "HasChanged c oldVM newVM = Inr True"
  shows "vm_Spec oldVM \<noteq> vm_Spec newVM"
  using assms
  by (cases c)
    (auto simp: Storage_HasChanged_def Cdrom_HasChanged_def Network_HasChanged_def
      Compute_HasChanged_def Devices_HasChanged_def Lifecycle_HasChanged_def
      getCdromDisks_def getHotpluggableCdromVolumes_def Let_def split: option.splits)

lemma ValidateUpdate_granular:
  assumes "CheckPermission v (req_UserInfo req) (meta_Namespace (vm_ObjectMeta newVM))
             (meta_Name (vm_ObjectMeta newVM)) ''virtualmachines/full-admin'' = Inr False"
    and "fst (checkSubresourcePermissions v (req_UserInfo req)
           (meta_Namespace (vm_ObjectMeta newVM)) (meta_Name (vm_ObjectMeta newVM))
           (FieldCheckers v) (False, Map.empty)) = Inr (True, perms)"
  shows "fst (ValidateUpdate v (Some req) (VirtualMachineObject oldVM)
                (VirtualMachineObject newVM)) =
         (case fst (runFieldCheckers perms (FieldCheckers v) (oldVM, newVM)) of
            Inl p \<Rightarrow> Inl p
          | Inr (oldCopy, newCopy) \<Rightarrow> Inr (residualVerdict oldCopy newCopy))"
proof -
  obtain calls where c: "checkSubresourcePermissions v (req_UserInfo req)
      (meta_Namespace (vm_ObjectMeta newVM)) (meta_Name (vm_ObjectMeta newVM))
      (FieldCheckers v) (False, Map.empty) = (Inr (True, perms), calls)"
    using assms(2) by (metis prod.collapse)
  obtain r calls' where r: "runFieldCheckers perms (FieldCheckers v) (oldVM, newVM) = (r, calls')"
    by (cases "runFieldCheckers perms (FieldCheckers v) (oldVM, newVM)")
  show ?thesis
    using assms(1) c r
    by (simp add: ValidateUpdate_def Let_def DeepCopy_def split: sum.splits prod.splits)
qed


subsection \<open>A change in one category without its grant\<close>

text \<open>
  Claim C7 says that when exactly one checker reports a change and the user holds
  neither its grant nor full-admin, the verdict is the spec error. It is not so for a user
  who holds no granular grant at all: step 2 allows the update. It is not so either when
  the metadata differ as well: the verdict is then the metadata error.
\<close>

theorem unauthorized_change_counterexample:
  "CheckPermission (exampleValidator []) exampleUser ''default'' ''vm1''
     ''virtualmachines/full-admin'' = Inr False \<and>
   CheckPermission (exampleValidator []) exampleUser ''default'' ''vm1''
     (Subresource ComputePermissionChecker) = Inr False \<and>
   HasChanged ComputePermissionChecker exampleVM cpu4VM = Inr True \<and>
   HasChanged NetworkPermissionChecker exampleVM cpu4VM = Inr False \<and>
   HasChanged DevicesPermissionChecker exampleVM cpu4VM = Inr False \<and>
   HasChanged LifecyclePermissionChecker exampleVM cpu4VM = Inr False \<and>
   HasChanged CdromUserPermissionChecker exampleVM cpu4VM = Inr False \<and>
   HasChanged StoragePermissionChecker exampleVM cpu4VM = Inr False \<and>
   fst (ValidateUpdate (exampleValidator []) (Some exampleRequest)
          (VirtualMachineObject exampleVM) (VirtualMachineObject cpu4VM)) \<noteq>
     Inr (Inl SpecViolation) \<and>
   CheckPermission (exampleValidator [''virtualmachines/storage-admin'']) exampleUser
     ''default'' ''vm1'' ''virtualmachines/full-admin'' = Inr False \<and>
   CheckPermission (exampleValidator [''virtualmachines/storage-admin'']) exampleUser
     ''default'' ''vm1'' (Subresource ComputePermissionChecker) = Inr False \<and>
   HasChanged ComputePermissionChecker exampleVM relabelledVM = Inr True \<and>
   HasChanged NetworkPermissionChecker exampleVM relabelledVM = Inr False \<and>
   HasChanged DevicesPermissionChecker exampleVM relabelledVM = Inr False \<and>
   HasChanged LifecyclePermissionChecker exampleVM relabelledVM = Inr False \<and>
   HasChanged CdromUserPermissionChecker exampleVM relabelledVM = Inr False \<and>
   HasChanged StoragePermissionChecker exampleVM relabelledVM = Inr False \<and>
   fst (ValidateUpdate (exampleValidator [''virtualmachines/storage-admin''])
          (Some exampleRequest) (VirtualMachineObject exampleVM)
          (VirtualMachineObject relabelledVM)) \<noteq> Inr (Inl SpecViolation)"
proof -
  have "Map.empty \<noteq> [''team'' \<mapsto> ''b'']"
    by (metis map_upd_nonempty)
  then show ?thesis
    by (simp add: example_defs checker_defs ValidateUpdate_def residualVerdict_def
        normalizeSystemMetadata_def Let_def)
qed

text \<open>
  Claim C7, amended. When full-admin is answered false, every query for a checker of
  \<^verbatim>\<open>FieldCheckers\<close> is answered and one of them is answered true, exactly one checker
  \<open>c\<close> of \<^verbatim>\<open>FieldCheckers\<close> reports a change, the query for the subresource of \<open>c\<close> is
  answered false, and the metadata of the old and the new VirtualMachine are equal after
  normalisation, then \<^verbatim>\<open>ValidateUpdate\<close> returns the spec error.
\<close>

theorem unauthorized_change_denied:
  assumes "CheckPermission v (req_UserInfo req) (meta_Namespace (vm_ObjectMeta newVM))
             (meta_Name (vm_ObjectMeta newVM)) ''virtualmachines/full-admin'' = Inr False"
    and "\<forall>c'\<in>set (FieldCheckers v). \<exists>b.
           CheckPermission v (req_UserInfo req) (meta_Namespace (vm_ObjectMeta newVM))
             (meta_Name (vm_ObjectMeta newVM)) (Subresource c') = Inr b"
    and "\<exists>c'\<in>set (FieldCheckers v).
           CheckPermission v (req_UserInfo req) (meta_Namespace (vm_ObjectMeta newVM))
             (meta_Name (vm_ObjectMeta newVM)) (Subresource c') = Inr True"
    and "c \<in> set (FieldCheckers v)"
    and "HasChanged c oldVM newVM = Inr True"
    and "\<forall>c'\<in>set (FieldCheckers v). c' \<noteq> c \<longrightarrow> HasChanged c' oldVM newVM = Inr False"
    and "CheckPermission v (req_UserInfo req) (meta_Namespace (vm_ObjectMeta newVM))
           (meta_Name (vm_ObjectMeta newVM)) (Subresource c) = Inr False"
    and "fst (normalizeSystemMetadata (vm_ObjectMeta oldVM) (vm_ObjectMeta newVM)) =
         snd (normalizeSystemMetadata (vm_ObjectMeta oldVM) (vm_ObjectMeta newVM))"
  shows "fst (ValidateUpdate v (Some req) (VirtualMachineObject oldVM)
                (VirtualMachineObject newVM)) = Inr (Inl SpecViolation)"
proof -
  let ?u = "req_UserInfo req"
  let ?ns = "meta_Namespace (vm_ObjectMeta newVM)"
  let ?nm = "meta_Name (vm_ObjectMeta newVM)"
  let ?p = "\<lambda>k. if k \<in> Subresource ` set (FieldCheckers v)
                 then Some (CheckPermission v ?u ?ns ?nm k = Inr True) else Map.empty k"
  have perms: "fst (checkSubresourcePermissions v ?u ?ns ?nm (FieldCheckers v)
      (False, Map.empty)) = Inr (True, ?p)"
    using checkSubresourcePermissions_answered [OF assms(2), of False Map.empty] assms(3)
    by simp
  have denied: "\<not> lookupPermission ?p (Subresource c)"
    using assms(4,7) by (simp add: lookupPermission_def)
  have "\<forall>c'\<in>set (FieldCheckers v). HasChanged c' oldVM newVM = Inr False \<or>
      (HasChanged c' oldVM newVM = Inr True \<and> \<not> lookupPermission ?p (Subresource c'))"
  proof
    fix c'
    assume c': "c' \<in> set (FieldCheckers v)"
    show "HasChanged c' oldVM newVM = Inr False \<or>
      (HasChanged c' oldVM newVM = Inr True \<and> \<not> lookupPermission ?p (Subresource c'))"
    proof (cases "c' = c")
      case True
      with assms(5) denied show ?thesis by blast
    next
      case False
      with assms(6) c' show ?thesis by blast
    qed
  qed
  then have loop: "runFieldCheckers ?p (FieldCheckers v) (oldVM, newVM) =
      (Inr (oldVM, newVM), map HasChangedCalled (FieldCheckers v))"
    by (rule runFieldCheckers_unchanged)
  have "residualVerdict oldVM newVM = Inl SpecViolation"
    using HasChanged_spec_differs [OF assms(5)] assms(8)
    by (simp add: residualVerdict_def Let_def case_prod_beta)
  with ValidateUpdate_granular [OF assms(1) perms, of oldVM] loop show ?thesis
    by simp
qed


theorem unauthorized_change_denied_witness:
  "fst (ValidateUpdate (exampleValidator [''virtualmachines/storage-admin''])
          (Some exampleRequest) (VirtualMachineObject exampleVM)
          (VirtualMachineObject cpu4VM)) = Inr (Inl SpecViolation)"
proof -
  let ?v = "exampleValidator [''virtualmachines/storage-admin'']"
  let ?ask = "CheckPermission ?v (req_UserInfo exampleRequest)
                (meta_Namespace (vm_ObjectMeta cpu4VM)) (meta_Name (vm_ObjectMeta cpu4VM))"
  have admin: "?ask ''virtualmachines/full-admin'' = Inr False"
    by (simp add: example_defs)
  have answered: "\<forall>c'\<in>set (FieldCheckers ?v). \<exists>b. ?ask (Subresource c') = Inr b"
    by (simp add: example_defs)
  have granted: "\<exists>c'\<in>set (FieldCheckers ?v). ?ask (Subresource c') = Inr True"
    by (simp add: example_defs)
  have listed: "ComputePermissionChecker \<in> set (FieldCheckers ?v)"
    by (simp add: example_defs)
  have changed: "HasChanged ComputePermissionChecker exampleVM cpu4VM = Inr True"
    by (simp add: example_defs checker_defs)
  have others: "\<forall>c'\<in>set (FieldCheckers ?v). c' \<noteq> ComputePermissionChecker \<longrightarrow>
      HasChanged c' exampleVM cpu4VM = Inr False"
    by (simp add: example_defs checker_defs)
  have denied: "?ask (Subresource ComputePermissionChecker) = Inr False"
    by (simp add: example_defs)
  have metadata: "fst (normalizeSystemMetadata (vm_ObjectMeta exampleVM) (vm_ObjectMeta cpu4VM)) =
      snd (normalizeSystemMetadata (vm_ObjectMeta exampleVM) (vm_ObjectMeta cpu4VM))"
    by (simp add: example_defs normalizeSystemMetadata_def)
  show ?thesis
    by (rule unauthorized_change_denied
        [OF admin answered granted listed changed others denied metadata])
qed

subsection \<open>The CD-ROM grant next to the storage grant\<close>

lemma Cdrom_HasChanged_implies_storage:
  assumes "Cdrom_HasChanged oldVM newVM = Inr True"
  shows "\<not> templateIsNil oldVM \<and> \<not> templateIsNil newVM \<and>
         Storage_HasChanged oldVM newVM = Inr True"
proof -
  from assms have d: "getCdromDisks oldVM = getCdromDisks newVM"
    and h: "getHotpluggableCdromVolumes oldVM \<noteq> getHotpluggableCdromVolumes newVM"
    by (auto simp: Cdrom_HasChanged_def Let_def split: if_splits)
  show ?thesis
  proof (cases "spec_Template (vm_Spec oldVM)")
    case None
    then have "getCdromDisks newVM = []" "getHotpluggableCdromVolumes oldVM = []"
      using d by (simp_all add: getCdromDisks_def getHotpluggableCdromVolumes_def)
    then have "getHotpluggableCdromVolumes newVM = []"
      by (cases "spec_Template (vm_Spec newVM)")
        (simp_all add: getCdromDisks_def getHotpluggableCdromVolumes_def)
    with h \<open>getHotpluggableCdromVolumes oldVM = []\<close> show ?thesis by simp
  next
    case old: (Some oldT)
    show ?thesis
    proof (cases "spec_Template (vm_Spec newVM)")
      case None
      then have "getCdromDisks oldVM = []" "getHotpluggableCdromVolumes newVM = []"
        using d by (simp_all add: getCdromDisks_def getHotpluggableCdromVolumes_def)
      then have "getHotpluggableCdromVolumes oldVM = []"
        using old by (simp add: getCdromDisks_def getHotpluggableCdromVolumes_def)
      with h \<open>getHotpluggableCdromVolumes newVM = []\<close> show ?thesis by simp
    next
      case new: (Some newT)
      from d have disks: "filter (\<lambda>disk. disk_CDRom disk \<noteq> None)
            (dev_Disks (dom_Devices (vmi_Domain (tmpl_Spec oldT)))) =
          filter (\<lambda>disk. disk_CDRom disk \<noteq> None)
            (dev_Disks (dom_Devices (vmi_Domain (tmpl_Spec newT))))"
        by (simp add: getCdromDisks_def old new)
      have "getHotpluggableCdromVolumes oldVM = getHotpluggableCdromVolumes newVM"
        if volumes: "vmi_Volumes (tmpl_Spec oldT) = vmi_Volumes (tmpl_Spec newT)"
        unfolding getHotpluggableCdromVolumes_def old new option.case Let_def disks volumes
        by (rule refl)
      with h have "vmi_Volumes (tmpl_Spec oldT) \<noteq> vmi_Volumes (tmpl_Spec newT)"
        by blast
      then show ?thesis
        by (simp add: Storage_HasChanged_def templateIsNil_def old new)
    qed
  qed
qed

lemma Storage_after_Cdrom_Neutralize:
  "Storage_Neutralize (fst (Cdrom_Neutralize oldVM newVM)) (snd (Cdrom_Neutralize oldVM newVM)) =
   Storage_Neutralize oldVM newVM"
proof (cases "templateIsNil oldVM \<or> templateIsNil newVM")
  case True
  then show ?thesis by (auto simp: Cdrom_Neutralize_def)
next
  case False
  then show ?thesis
    by (auto simp: Cdrom_Neutralize_def Storage_Neutralize_def Let_def templateIsNil_def
        onTemplateSpec_def onDevices_def onDomain_def)
qed

lemma Storage_Neutralize_meta:
  "vm_ObjectMeta (fst (Storage_Neutralize oldVM newVM)) = vm_ObjectMeta oldVM \<and>
   vm_ObjectMeta (snd (Storage_Neutralize oldVM newVM)) = vm_ObjectMeta newVM"
  by (simp add: Storage_Neutralize_def Let_def onTemplateSpec_def)

lemma Storage_Neutralize_spec:
  assumes "Storage_HasChanged oldVM newVM = Inr False"
  shows "(vm_Spec (fst (Storage_Neutralize oldVM newVM)) =
          vm_Spec (snd (Storage_Neutralize oldVM newVM))) =
         (vm_Spec oldVM = vm_Spec newVM)"
proof -
  from assms obtain oldT newT where
    old: "spec_Template (vm_Spec oldVM) = Some oldT" and
    new: "spec_Template (vm_Spec newVM) = Some newT" and
    volumes: "vmi_Volumes (tmpl_Spec oldT) = vmi_Volumes (tmpl_Spec newT)" and
    disks: "dev_Disks (dom_Devices (vmi_Domain (tmpl_Spec oldT))) =
            dev_Disks (dom_Devices (vmi_Domain (tmpl_Spec newT)))" and
    filesystems: "dev_Filesystems (dom_Devices (vmi_Domain (tmpl_Spec oldT))) =
                  dev_Filesystems (dom_Devices (vmi_Domain (tmpl_Spec newT)))"
    by (auto simp: Storage_HasChanged_def Let_def split: option.splits)
  define restore where "restore =
    (\<lambda>sp :: 'a VirtualMachineSpec. sp\<lparr>spec_Template :=
       map_option (\<lambda>t. t\<lparr>tmpl_Spec :=
         onDevices (\<lambda>d. d\<lparr>dev_Disks := dev_Disks (dom_Devices (vmi_Domain (tmpl_Spec newT))),
                         dev_Filesystems :=
                           dev_Filesystems (dom_Devices (vmi_Domain (tmpl_Spec newT)))\<rparr>)
           ((tmpl_Spec t)\<lparr>vmi_Volumes := vmi_Volumes (tmpl_Spec newT)\<rparr>)\<rparr>)
         (spec_Template sp)\<rparr>)"
  have r_old: "restore (vm_Spec (fst (Storage_Neutralize oldVM newVM))) = vm_Spec oldVM"
    using volumes disks filesystems
    by (simp add: restore_def Storage_Neutralize_def Let_def templateIsNil_def old new
        onTemplateSpec_def onDevices_def onDomain_def)
  have r_new: "restore (vm_Spec (snd (Storage_Neutralize oldVM newVM))) = vm_Spec newVM"
    by (simp add: restore_def Storage_Neutralize_def Let_def templateIsNil_def old new
        onTemplateSpec_def onDevices_def onDomain_def)
  have "vm_Spec oldVM = vm_Spec newVM"
    if "vm_Spec (fst (Storage_Neutralize oldVM newVM)) =
        vm_Spec (snd (Storage_Neutralize oldVM newVM))"
    using r_old r_new that by simp
  moreover have "vm_Spec (fst (Storage_Neutralize oldVM newVM)) =
        vm_Spec (snd (Storage_Neutralize oldVM newVM))"
    if "vm_Spec oldVM = vm_Spec newVM"
    using that old new
    by (simp add: Storage_Neutralize_def Let_def templateIsNil_def onTemplateSpec_def)
  ultimately show ?thesis by blast
qed

lemma Storage_Neutralize_residual:
  assumes "Storage_HasChanged oldVM newVM = Inr False"
  shows "residualVerdict (fst (Storage_Neutralize oldVM newVM))
           (snd (Storage_Neutralize oldVM newVM)) = residualVerdict oldVM newVM"
  using Storage_Neutralize_spec [OF assms] Storage_Neutralize_meta [of oldVM newVM]
  by (simp add: residualVerdict_def Let_def case_prod_beta)

lemma runFieldCheckers_Nil: "runFieldCheckers perms [] copies = (Inr copies, [])"
  by (cases copies) simp

lemma runFieldCheckers_append:
  "fst (runFieldCheckers perms (xs @ ys) copies) =
     (case fst (runFieldCheckers perms xs copies) of
        Inl p \<Rightarrow> Inl p
      | Inr copies' \<Rightarrow> fst (runFieldCheckers perms ys copies'))"
proof (induction xs arbitrary: copies)
  case Nil
  show ?case by (cases copies) simp
next
  case (Cons c xs)
  obtain oldCopy newCopy where copies: "copies = (oldCopy, newCopy)"
    by (cases copies)
  show ?case
    unfolding copies
    by (cases "HasChanged c oldCopy newCopy")
      (simp_all add: Cons.IH Let_def case_prod_beta)
qed

lemma runFieldCheckers_agree:
  assumes "\<forall>c\<in>set cs. lookupPermission permsA (Subresource c) =
             lookupPermission permsB (Subresource c)"
  shows "runFieldCheckers permsA cs copies = runFieldCheckers permsB cs copies"
  using assms
proof (induction cs arbitrary: copies)
  case Nil
  show ?case by (cases copies) simp
next
  case (Cons c cs)
  obtain oldCopy newCopy where copies: "copies = (oldCopy, newCopy)"
    by (cases copies)
  from Cons.prems have
    here: "lookupPermission permsA (Subresource c) = lookupPermission permsB (Subresource c)"
    and rest: "\<forall>c\<in>set cs. lookupPermission permsA (Subresource c) =
      lookupPermission permsB (Subresource c)"
    by simp_all
  show ?case
    unfolding copies
    by (cases "HasChanged c oldCopy newCopy") (simp_all add: here Cons.IH [OF rest] Let_def)
qed

lemma checkSubresourcePermissions_same_error:
  assumes "\<exists>c\<in>set cs. \<exists>e. CheckPermission vA u ns nm (Subresource c) = Inl e"
    and "\<forall>c\<in>set cs.
           CheckPermission vB u ns nm (Subresource c) = CheckPermission vA u ns nm (Subresource c) \<or>
           (\<exists>a b. CheckPermission vA u ns nm (Subresource c) = Inr a \<and>
                  CheckPermission vB u ns nm (Subresource c) = Inr b)"
  shows "\<exists>e. fst (checkSubresourcePermissions vA u ns nm cs stateA) = Inl e \<and>
             fst (checkSubresourcePermissions vB u ns nm cs stateB) = Inl e"
  using assms
proof (induction cs arbitrary: stateA stateB)
  case Nil
  then show ?case by simp
next
  case (Cons c cs)
  obtain anyA permsA anyB permsB where
    states: "stateA = (anyA, permsA)" "stateB = (anyB, permsB)"
    by (cases stateA, cases stateB)
  show ?case
  proof (cases "CheckPermission vA u ns nm (Subresource c)")
    case (Inl e)
    with Cons.prems(2) have "CheckPermission vB u ns nm (Subresource c) = Inl e"
      by auto
    with Inl show ?thesis by (simp add: states)
  next
    case (Inr a)
    with Cons.prems(2) obtain b where b: "CheckPermission vB u ns nm (Subresource c) = Inr b"
      by auto
    from Inr Cons.prems(1) have
      "\<exists>c\<in>set cs. \<exists>e. CheckPermission vA u ns nm (Subresource c) = Inl e"
      by auto
    moreover from Cons.prems(2) have "\<forall>c\<in>set cs.
        CheckPermission vB u ns nm (Subresource c) = CheckPermission vA u ns nm (Subresource c) \<or>
        (\<exists>a b. CheckPermission vA u ns nm (Subresource c) = Inr a \<and>
               CheckPermission vB u ns nm (Subresource c) = Inr b)"
      by simp
    ultimately obtain e where
      "fst (checkSubresourcePermissions vA u ns nm cs
              (if a then True else anyA, permsA(Subresource c \<mapsto> a))) = Inl e"
      "fst (checkSubresourcePermissions vB u ns nm cs
              (if b then True else anyB, permsB(Subresource c \<mapsto> b))) = Inl e"
      using Cons.IH by blast
    then show ?thesis
      by (simp add: states Inr b case_prod_beta)
  qed
qed

lemma ValidateUpdate_query_error:
  assumes "CheckPermission v (req_UserInfo req) (meta_Namespace (vm_ObjectMeta newVM))
             (meta_Name (vm_ObjectMeta newVM)) ''virtualmachines/full-admin'' = Inr False"
    and "fst (checkSubresourcePermissions v (req_UserInfo req)
           (meta_Namespace (vm_ObjectMeta newVM)) (meta_Name (vm_ObjectMeta newVM))
           (FieldCheckers v) (False, Map.empty)) = Inl e"
  shows "fst (ValidateUpdate v (Some req) (VirtualMachineObject oldVM)
                (VirtualMachineObject newVM)) = Inr (Inl e)"
proof -
  obtain calls where "checkSubresourcePermissions v (req_UserInfo req)
      (meta_Namespace (vm_ObjectMeta newVM)) (meta_Name (vm_ObjectMeta newVM))
      (FieldCheckers v) (False, Map.empty) = (Inl e, calls)"
    using assms(2) by (metis prod.collapse)
  with assms(1) show ?thesis
    by (simp add: ValidateUpdate_def Let_def)
qed

lemma cdrom_then_storage:
  assumes "lookupPermission permsA (Subresource CdromUserPermissionChecker)"
    and "lookupPermission permsA (Subresource StoragePermissionChecker)"
    and "lookupPermission permsB (Subresource StoragePermissionChecker)"
    and "\<not> lookupPermission permsB (Subresource CdromUserPermissionChecker)"
  shows "(case fst (runFieldCheckers permsA
                 [CdromUserPermissionChecker, StoragePermissionChecker] (oldCopy, newCopy)) of
            Inl p \<Rightarrow> Inl p
          | Inr (oldCopy', newCopy') \<Rightarrow> Inr (residualVerdict oldCopy' newCopy')) =
         (case fst (runFieldCheckers permsB
                 [CdromUserPermissionChecker, StoragePermissionChecker] (oldCopy, newCopy)) of
            Inl p \<Rightarrow> Inl p
          | Inr (oldCopy', newCopy') \<Rightarrow> Inr (residualVerdict oldCopy' newCopy'))"
proof (cases "Cdrom_HasChanged oldCopy newCopy = Inr True")
  case False
  then have "Cdrom_HasChanged oldCopy newCopy = Inr False"
    by (auto simp: Cdrom_HasChanged_def Let_def)
  then show ?thesis
    using assms(2,3)
    by (cases "Storage_HasChanged oldCopy newCopy")
      (simp_all add: Let_def runFieldCheckers_Nil)
next
  case True
  note changed = Cdrom_HasChanged_implies_storage [OF True]
  obtain a b where n: "Cdrom_Neutralize oldCopy newCopy = (a, b)"
    by (cases "Cdrom_Neutralize oldCopy newCopy")
  have both: "Storage_Neutralize a b = Storage_Neutralize oldCopy newCopy"
    using Storage_after_Cdrom_Neutralize [of oldCopy newCopy] by (simp add: n)
  have "\<not> templateIsNil a" "\<not> templateIsNil b"
    using changed n by (auto simp: Cdrom_Neutralize_def Let_def)
  then obtain s where s: "Storage_HasChanged a b = Inr s"
    by (auto simp: Storage_HasChanged_def templateIsNil_def Let_def split: option.splits)
  have B: "fst (runFieldCheckers permsB
      [CdromUserPermissionChecker, StoragePermissionChecker] (oldCopy, newCopy)) =
      Inr (Storage_Neutralize oldCopy newCopy)"
    using True changed assms(3,4) by (simp add: Let_def runFieldCheckers_Nil)
  show ?thesis
  proof (cases s)
    case True
    have "fst (runFieldCheckers permsA
        [CdromUserPermissionChecker, StoragePermissionChecker] (oldCopy, newCopy)) =
        Inr (Storage_Neutralize oldCopy newCopy)"
      using \<open>Cdrom_HasChanged oldCopy newCopy = Inr True\<close> assms(1,2) n s True both
      by (simp add: Let_def runFieldCheckers_Nil)
    with B show ?thesis by simp
  next
    case False
    have A: "fst (runFieldCheckers permsA
        [CdromUserPermissionChecker, StoragePermissionChecker] (oldCopy, newCopy)) = Inr (a, b)"
      using \<open>Cdrom_HasChanged oldCopy newCopy = Inr True\<close> assms(1) n s False
      by (simp add: Let_def runFieldCheckers_Nil)
    have "residualVerdict a b =
        residualVerdict (fst (Storage_Neutralize a b)) (snd (Storage_Neutralize a b))"
      using Storage_Neutralize_residual [of a b] s False by simp
    then show ?thesis
      unfolding A B by (simp add: both case_prod_beta)
  qed
qed

lemma verdict_after_prefix:
  assumes "\<And>copies :: 'x VirtualMachine \<times> 'x VirtualMachine.
      (case fst (runFieldCheckers permsA ys copies) of
         Inl p \<Rightarrow> Inl p
       | Inr (oldCopy, newCopy) \<Rightarrow> Inr (residualVerdict oldCopy newCopy)) =
      (case fst (runFieldCheckers permsB ys copies) of
         Inl p \<Rightarrow> Inl p
       | Inr (oldCopy, newCopy) \<Rightarrow> Inr (residualVerdict oldCopy newCopy))"
    and "runFieldCheckers permsA xs (start :: 'x VirtualMachine \<times> 'x VirtualMachine) =
         runFieldCheckers permsB xs start"
  shows
    "(case fst (runFieldCheckers permsA (xs @ ys) start) of
         Inl p \<Rightarrow> Inl p
       | Inr (oldCopy, newCopy) \<Rightarrow> Inr (residualVerdict oldCopy newCopy)) =
      (case fst (runFieldCheckers permsB (xs @ ys) start) of
         Inl p \<Rightarrow> Inl p
       | Inr (oldCopy, newCopy) \<Rightarrow> Inr (residualVerdict oldCopy newCopy))"
proof (cases "fst (runFieldCheckers permsB xs start)")
  case (Inl p)
  then show ?thesis by (simp add: runFieldCheckers_append assms(2))
next
  case (Inr copies)
  then show ?thesis
    using assms(1) [of copies] by (simp add: runFieldCheckers_append assms(2))
qed

text \<open>
  Claim C4. With the registered checker list, two permission checkers that both grant
  \<^verbatim>\<open>virtualmachines/storage-admin\<close> and answer every other query alike, except that the
  first grants \<^verbatim>\<open>virtualmachines/cdrom-user\<close> and the second does not, lead
  \<^verbatim>\<open>ValidateUpdate\<close> to the same result for every old and new VirtualMachine.
\<close>

theorem cdrom_and_storage_as_storage_alone:
  assumes "FieldCheckers vA = registeredFieldCheckers"
    and "FieldCheckers vB = registeredFieldCheckers"
    and "CheckPermission vA (req_UserInfo req) (meta_Namespace (vm_ObjectMeta newVM))
           (meta_Name (vm_ObjectMeta newVM)) ''virtualmachines/cdrom-user'' = Inr True"
    and "CheckPermission vA (req_UserInfo req) (meta_Namespace (vm_ObjectMeta newVM))
           (meta_Name (vm_ObjectMeta newVM)) ''virtualmachines/storage-admin'' = Inr True"
    and "CheckPermission vB (req_UserInfo req) (meta_Namespace (vm_ObjectMeta newVM))
           (meta_Name (vm_ObjectMeta newVM)) ''virtualmachines/cdrom-user'' = Inr False"
    and "\<forall>sub. sub \<noteq> ''virtualmachines/cdrom-user'' \<longrightarrow>
           CheckPermission vB (req_UserInfo req) (meta_Namespace (vm_ObjectMeta newVM))
             (meta_Name (vm_ObjectMeta newVM)) sub =
           CheckPermission vA (req_UserInfo req) (meta_Namespace (vm_ObjectMeta newVM))
             (meta_Name (vm_ObjectMeta newVM)) sub"
  shows "fst (ValidateUpdate vA (Some req) (VirtualMachineObject (oldVM :: 'x VirtualMachine))
                (VirtualMachineObject newVM)) =
         fst (ValidateUpdate vB (Some req) (VirtualMachineObject oldVM)
                (VirtualMachineObject newVM))"
proof -
  let ?A = "CheckPermission vA (req_UserInfo req) (meta_Namespace (vm_ObjectMeta newVM))
              (meta_Name (vm_ObjectMeta newVM))"
  let ?B = "CheckPermission vB (req_UserInfo req) (meta_Namespace (vm_ObjectMeta newVM))
              (meta_Name (vm_ObjectMeta newVM))"
  let ?cs = registeredFieldCheckers
  let ?VA = "ValidateUpdate vA (Some req) (VirtualMachineObject oldVM)
               (VirtualMachineObject newVM)"
  let ?VB = "ValidateUpdate vB (Some req) (VirtualMachineObject oldVM)
               (VirtualMachineObject newVM)"
  have same: "?B sub = ?A sub" if "sub \<noteq> ''virtualmachines/cdrom-user''" for sub
    using assms(6) that by blast
  have admin: "?B ''virtualmachines/full-admin'' = ?A ''virtualmachines/full-admin''"
    by (rule same) simp
  show ?thesis
  proof (cases "?A ''virtualmachines/full-admin''")
    case (Inl e)
    then show ?thesis
      using admin by (simp add: ValidateUpdate_def Let_def)
  next
    case (Inr fullAdmin)
    show ?thesis
    proof (cases fullAdmin)
      case True
      with Inr show ?thesis
        using admin by (simp add: ValidateUpdate_def Let_def)
    next
      case False
      with Inr admin have adminA: "?A ''virtualmachines/full-admin'' = Inr False"
        and adminB: "?B ''virtualmachines/full-admin'' = Inr False"
        by simp_all
      have related: "\<forall>c\<in>set ?cs. ?B (Subresource c) = ?A (Subresource c) \<or>
          (\<exists>a b. ?A (Subresource c) = Inr a \<and> ?B (Subresource c) = Inr b)"
      proof
        fix c
        show "?B (Subresource c) = ?A (Subresource c) \<or>
          (\<exists>a b. ?A (Subresource c) = Inr a \<and> ?B (Subresource c) = Inr b)"
          using assms(3,5) same [of "Subresource c"]
          by (cases c) auto
      qed
      show ?thesis
      proof (cases "\<forall>c\<in>set ?cs. \<exists>b. ?A (Subresource c) = Inr b")
        case answeredA: True
        have answeredB: "\<forall>c\<in>set ?cs. \<exists>b. ?B (Subresource c) = Inr b"
        proof
          fix c
          assume "c \<in> set ?cs"
          with answeredA related show "\<exists>b. ?B (Subresource c) = Inr b"
            by metis
        qed
        define pA where
          "pA = (\<lambda>k. if k \<in> Subresource ` set ?cs then Some (?A k = Inr True) else Map.empty k)"
        define pB where
          "pB = (\<lambda>k. if k \<in> Subresource ` set ?cs then Some (?B k = Inr True) else Map.empty k)"
        have storage: "\<exists>c\<in>set ?cs. ?A (Subresource c) = Inr True"
          "\<exists>c\<in>set ?cs. ?B (Subresource c) = Inr True"
          using assms(4) same [of "''virtualmachines/storage-admin''"]
          by (simp_all add: registeredFieldCheckers_def)
        have permsA: "fst (checkSubresourcePermissions vA (req_UserInfo req)
            (meta_Namespace (vm_ObjectMeta newVM)) (meta_Name (vm_ObjectMeta newVM))
            (FieldCheckers vA) (False, Map.empty)) = Inr (True, pA)"
          using checkSubresourcePermissions_answered [OF answeredA, of False Map.empty] storage(1)
          by (simp add: assms(1) pA_def)
        have permsB: "fst (checkSubresourcePermissions vB (req_UserInfo req)
            (meta_Namespace (vm_ObjectMeta newVM)) (meta_Name (vm_ObjectMeta newVM))
            (FieldCheckers vB) (False, Map.empty)) = Inr (True, pB)"
          using checkSubresourcePermissions_answered [OF answeredB, of False Map.empty] storage(2)
          by (simp add: assms(2) pB_def)
        have lookupA: "lookupPermission pA (Subresource c) = (?A (Subresource c) = Inr True)"
          and lookupB: "lookupPermission pB (Subresource c) = (?B (Subresource c) = Inr True)"
          for c
          by (cases c; simp add: lookupPermission_def registeredFieldCheckers_def pA_def pB_def)+
        let ?first = "[NetworkPermissionChecker, ComputePermissionChecker,
          DevicesPermissionChecker, LifecyclePermissionChecker]"
        let ?last = "[CdromUserPermissionChecker, StoragePermissionChecker]"
        have split: "?cs = ?first @ ?last"
          by (simp add: registeredFieldCheckers_def)
        have "\<forall>c\<in>set ?first. lookupPermission pA (Subresource c) =
            lookupPermission pB (Subresource c)"
          unfolding lookupA lookupB using same by simp
        then have first: "runFieldCheckers pA ?first (oldVM, newVM) =
            runFieldCheckers pB ?first (oldVM, newVM)"
          by (rule runFieldCheckers_agree)
        have last: "(case fst (runFieldCheckers pA ?last copies) of
              Inl p \<Rightarrow> Inl p
            | Inr (oldCopy, newCopy) \<Rightarrow> Inr (residualVerdict oldCopy newCopy)) =
            (case fst (runFieldCheckers pB ?last copies) of
              Inl p \<Rightarrow> Inl p
            | Inr (oldCopy, newCopy) \<Rightarrow> Inr (residualVerdict oldCopy newCopy))"
          for copies :: "'x VirtualMachine \<times> 'x VirtualMachine"
        proof -
          obtain oldCopy newCopy where copies: "copies = (oldCopy, newCopy)"
            by (cases copies)
          have "lookupPermission pA (Subresource CdromUserPermissionChecker)"
            "lookupPermission pA (Subresource StoragePermissionChecker)"
            "lookupPermission pB (Subresource StoragePermissionChecker)"
            "\<not> lookupPermission pB (Subresource CdromUserPermissionChecker)"
            unfolding lookupA lookupB
            using assms(3,4,5) same [of "''virtualmachines/storage-admin''"] by simp_all
          then show ?thesis
            unfolding copies by (rule cdrom_then_storage)
        qed
        have "fst ?VA =
            (case fst (runFieldCheckers pA ?cs (oldVM, newVM)) of
               Inl p \<Rightarrow> Inl p
             | Inr (oldCopy, newCopy) \<Rightarrow> Inr (residualVerdict oldCopy newCopy))"
          using ValidateUpdate_granular [OF adminA permsA, of oldVM] by (simp add: assms(1))
        moreover have "fst ?VB =
            (case fst (runFieldCheckers pB ?cs (oldVM, newVM)) of
               Inl p \<Rightarrow> Inl p
             | Inr (oldCopy, newCopy) \<Rightarrow> Inr (residualVerdict oldCopy newCopy))"
          using ValidateUpdate_granular [OF adminB permsB, of oldVM] by (simp add: assms(2))
        moreover have
          "(case fst (runFieldCheckers pA ?cs (oldVM, newVM)) of
               Inl p \<Rightarrow> Inl p
             | Inr (oldCopy, newCopy) \<Rightarrow> Inr (residualVerdict oldCopy newCopy)) =
           (case fst (runFieldCheckers pB ?cs (oldVM, newVM)) of
               Inl p \<Rightarrow> Inl p
             | Inr (oldCopy, newCopy) \<Rightarrow> Inr (residualVerdict oldCopy newCopy))"
          unfolding split by (rule verdict_after_prefix [OF last first])
        ultimately show ?thesis by simp
      next
        case False
        then have "\<exists>c\<in>set ?cs. \<exists>e. ?A (Subresource c) = Inl e"
          by (metis sumE)
        from checkSubresourcePermissions_same_error [OF this related,
            of "(False, Map.empty)" "(False, Map.empty)"]
        obtain e where
          "fst (checkSubresourcePermissions vA (req_UserInfo req)
            (meta_Namespace (vm_ObjectMeta newVM)) (meta_Name (vm_ObjectMeta newVM))
            (FieldCheckers vA) (False, Map.empty)) = Inl e"
          "fst (checkSubresourcePermissions vB (req_UserInfo req)
            (meta_Namespace (vm_ObjectMeta newVM)) (meta_Name (vm_ObjectMeta newVM))
            (FieldCheckers vB) (False, Map.empty)) = Inl e"
          by (auto simp: assms(1,2))
        then show ?thesis
          using ValidateUpdate_query_error [OF adminA, of e oldVM]
            ValidateUpdate_query_error [OF adminB, of e oldVM]
          by simp
      qed
    qed
  qed
qed

theorem cdrom_and_storage_as_storage_alone_witness:
  "fst (ValidateUpdate
          (exampleValidator [''virtualmachines/cdrom-user'', ''virtualmachines/storage-admin''])
          (Some exampleRequest) (VirtualMachineObject (cdromVM [isoVolume ''a.iso'']))
          (VirtualMachineObject (cdromVM [isoVolume ''b.iso'']))) =
   fst (ValidateUpdate (exampleValidator [''virtualmachines/storage-admin''])
          (Some exampleRequest) (VirtualMachineObject (cdromVM [isoVolume ''a.iso'']))
          (VirtualMachineObject (cdromVM [isoVolume ''b.iso''])))"
proof -
  let ?vA = "exampleValidator [''virtualmachines/cdrom-user'', ''virtualmachines/storage-admin'']"
  let ?vB = "exampleValidator [''virtualmachines/storage-admin'']"
  let ?new = "cdromVM [isoVolume ''b.iso'']"
  let ?askA = "CheckPermission ?vA (req_UserInfo exampleRequest)
                 (meta_Namespace (vm_ObjectMeta ?new)) (meta_Name (vm_ObjectMeta ?new))"
  let ?askB = "CheckPermission ?vB (req_UserInfo exampleRequest)
                 (meta_Namespace (vm_ObjectMeta ?new)) (meta_Name (vm_ObjectMeta ?new))"
  have listA: "FieldCheckers ?vA = registeredFieldCheckers"
    and listB: "FieldCheckers ?vB = registeredFieldCheckers"
    by (simp_all add: exampleValidator_def)
  have cdromA: "?askA ''virtualmachines/cdrom-user'' = Inr True"
    and storageA: "?askA ''virtualmachines/storage-admin'' = Inr True"
    and cdromB: "?askB ''virtualmachines/cdrom-user'' = Inr False"
    by (simp_all add: exampleValidator_def grantOnly_def)
  have others: "\<forall>sub. sub \<noteq> ''virtualmachines/cdrom-user'' \<longrightarrow> ?askB sub = ?askA sub"
    by (simp add: exampleValidator_def grantOnly_def)
  show ?thesis
    by (rule cdrom_and_storage_as_storage_alone
        [OF listA listB cdromA storageA cdromB others])
qed

end
